theory Spec2Isabelle
  imports Main "HOL-Library.Word"
begin

section \<open>The response store of vscode-httpyac\<close>

text \<open>
  A shallow embedding of \<^verbatim>\<open>src/responseStore.ts\<close> (class \<^verbatim>\<open>ResponseStore\<close>) and of
  \<^verbatim>\<open>openWithResponseHandlerFactory\<close>. Objects that the TypeScript mutates in place
  (\<^verbatim>\<open>ResponseItem\<close>) live in an explicit heap and the history holds references to
  them; every call to a collaborator (storage provider, editor commands, event emitter)
  transforms an abstract collaborator state and is appended to a trace of calls; a
  rejected promise (a throw) is the \<open>Inl\<close> of a sum, returned next to the state the
  throw leaves behind.
\<close>

subsection \<open>Data\<close>

text \<open>
  The locations that the storage provider hands out and that are read, deleted and
  opened (\<open>uri\<close>) are identified with their strings: the code tests them for presence and
  passes them on, and never compares two of them. A \<^verbatim>\<open>Buffer\<close> is a list of bytes.
\<close>

type_synonym uri = string
type_synonym bytes = "8 word list"

text \<open>The fields of \<^verbatim>\<open>httpyac.HttpResponse\<close> that the store touches.\<close>

record http_request =
  request_body :: "string option"

record http_response =
  request :: "http_request option"
  parsedBody :: "string option"
  body :: "string option"
  rawBody :: "bytes option"
  prettyPrintBody :: "string option"

text \<open>
  \<^verbatim>\<open>ResponseItem\<close>, with the fields that \<^verbatim>\<open>responseStore.ts\<close> and the handler for an
  external viewer read and write. The only closure ever stored in \<^verbatim>\<open>loadResponseBody\<close>
  is the one \<^verbatim>\<open>shrink\<close> installs; it is determined by the \<^verbatim>\<open>responseUri\<close> it captured, so
  the field holds that uri (\<open>None\<close>: the property is absent).
\<close>

text \<open>
  Modelled from the spec: the flags \<open>flagSave\<close> ("flagged to bypass any visible view") and
  \<open>flagNoView\<close> ("explicitly flagged to suppress presentation entirely"). The declaration
  of \<^verbatim>\<open>ResponseItem\<close> in \<^verbatim>\<open>./extensionApi\<close> is not part of the sources at hand; no function
  of the store reads the two flags, only the handlers modelled from the spec do.
\<close>

record response_item =
  item_id :: string
  name :: "string option"
  line :: "nat option"
  extension :: string
  openWith :: "string option"
  documentUri :: "uri option"
  responseUri :: "uri option"
  isCachedResponse :: bool
  loadResponseBody :: "uri option"
  response :: http_response
  flagSave :: bool
  flagNoView :: bool

text \<open>
  The \<^verbatim>\<open>vscode.Uri\<close> object of a document. The queue of documents to format is searched
  with \<^verbatim>\<open>indexOf\<close>, which compares objects by identity: \<open>uri_identity\<close> is the identity
  of the object, \<open>uri_string\<close> what \<^verbatim>\<open>toString()\<close> gives. Two objects may carry the same
  string.
\<close>

record vscode_uri =
  uri_identity :: nat
  uri_string :: string

text \<open>
  A \<^verbatim>\<open>vscode.TextDocument\<close> (\<open>document_id\<close> is its identity, for \<^verbatim>\<open>===\<close>) and a
  \<^verbatim>\<open>vscode.TextEditor\<close>.
\<close>

record text_document =
  document_id :: nat
  document_uri :: vscode_uri

record text_editor =
  document :: text_document

text \<open>
  What is thrown: a rejected \<^verbatim>\<open>readFile\<close>, the RangeError of an invalid array length,
  and whatever a handler throws.
\<close>

datatype error = ReadFileError | RangeError | HandlerError

text \<open>The calls the store and its handlers make to their collaborators.\<close>

datatype call =
    WriteFile bytes string
  | DeleteFile uri
  | ReadFile uri
  | FormatDocument text_editor
  | OpenWith uri string
  | HistoryChanged
  | SetContext bool

record 'w world =
  ext :: 'w
  calls :: "call list"

type_synonym 'w handler =
  "response_item \<Rightarrow> 'w world \<Rightarrow> (error + bool) \<times> response_item \<times> 'w world"

text \<open>
  \<^verbatim>\<open>getConfigSetting()\<close>. \<open>None\<close> is an unset (undefined) setting; a set
  \<^verbatim>\<open>maxHistoryItems\<close> is an integer.
\<close>

record config =
  maxHistoryItems :: "int option"
  responseViewPrettyPrint :: bool

text \<open>
  The collaborators: the \<^verbatim>\<open>StorageProvider\<close>, \<^verbatim>\<open>vscode.workspace.fs\<close>, the editor
  commands, the active editor, the configuration, and the three handlers of
  \<^verbatim>\<open>./view\<close> that are not part of the sources at hand. \<open>'w\<close> is the state of the
  world outside the store.
\<close>

record 'w environment =
  getConfigSetting :: config
  storageProvider_writeFile :: "bytes \<Rightarrow> string \<Rightarrow> 'w \<Rightarrow> uri option \<times> 'w"
  storageProvider_deleteFile :: "uri \<Rightarrow> 'w \<Rightarrow> 'w"
  workspace_fs_readFile :: "uri \<Rightarrow> 'w \<Rightarrow> bytes option"
  formatDocument :: "text_editor \<Rightarrow> 'w \<Rightarrow> bool \<times> 'w"
  vscode_openWith :: "uri \<Rightarrow> string \<Rightarrow> 'w \<Rightarrow> 'w"
  activeTextEditor :: "'w \<Rightarrow> text_editor option"
  toString_utf8 :: "bytes \<Rightarrow> string"
  saveFileResponseHandler :: "'w handler"
  noResponseViewResponseHandler :: "'w handler"
  previewResponseHandler :: "'w handler"

type_synonym item_ref = nat

text \<open>
  A \<^verbatim>\<open>ResponseStore\<close> instance together with the objects it refers to: \<open>heap\<close> maps a
  reference to the current fields of the object, \<open>next_ref\<close> is the next unused reference.
\<close>

record 'w store =
  heap :: "item_ref \<Rightarrow> response_item"
  next_ref :: item_ref
  responseCache :: "item_ref list"
  prettyPrintDocuments :: "vscode_uri list"
  world :: "'w world"

subsection \<open>Collaborator calls\<close>

definition writeFile :: "'w environment \<Rightarrow> bytes \<Rightarrow> string \<Rightarrow> 'w world \<Rightarrow> uri option \<times> 'w world" where
  "writeFile env content fileName w =
     (case storageProvider_writeFile env content fileName (ext w) of
        (u, x) \<Rightarrow> (u, \<lparr>ext = x, calls = calls w @ [WriteFile content fileName]\<rparr>))"

definition deleteFile :: "'w environment \<Rightarrow> uri \<Rightarrow> 'w world \<Rightarrow> 'w world" where
  "deleteFile env u w =
     \<lparr>ext = storageProvider_deleteFile env u (ext w), calls = calls w @ [DeleteFile u]\<rparr>"

definition readFile :: "'w environment \<Rightarrow> uri \<Rightarrow> 'w world \<Rightarrow> bytes option \<times> 'w world" where
  "readFile env u w =
     (workspace_fs_readFile env u (ext w), \<lparr>ext = ext w, calls = calls w @ [ReadFile u]\<rparr>)"

definition executeFormatDocument :: "'w environment \<Rightarrow> text_editor \<Rightarrow> 'w world \<Rightarrow> bool \<times> 'w world" where
  "executeFormatDocument env editor w =
     (case formatDocument env editor (ext w) of
        (ok, x) \<Rightarrow> (ok, \<lparr>ext = x, calls = calls w @ [FormatDocument editor]\<rparr>))"

definition executeOpenWith :: "'w environment \<Rightarrow> uri \<Rightarrow> string \<Rightarrow> 'w world \<Rightarrow> 'w world" where
  "executeOpenWith env u viewer w =
     \<lparr>ext = vscode_openWith env u viewer (ext w), calls = calls w @ [OpenWith u viewer]\<rparr>"

definition fire :: "'w world \<Rightarrow> 'w world" where
  "fire w = \<lparr>ext = ext w, calls = calls w @ [HistoryChanged]\<rparr>"

definition setContext :: "bool \<Rightarrow> 'w world \<Rightarrow> 'w world" where
  "setContext b w = \<lparr>ext = ext w, calls = calls w @ [SetContext b]\<rparr>"

subsection \<open>Array primitives\<close>

text \<open>\<^verbatim>\<open>Array.prototype.findIndex\<close>; \<open>None\<close> is JavaScript's \<open>-1\<close>.\<close>

fun findIndex :: "('a \<Rightarrow> bool) \<Rightarrow> 'a list \<Rightarrow> nat option" where
  "findIndex p [] = None"
| "findIndex p (x # xs) =
     (if p x then Some 0 else (case findIndex p xs of None \<Rightarrow> None | Some i \<Rightarrow> Some (Suc i)))"

text \<open>
  \<^verbatim>\<open>Array.prototype.indexOf\<close> on an array of \<^verbatim>\<open>vscode.Uri\<close> objects, with the \<open>-1\<close> of a
  missing element: strict equality of objects is identity.
\<close>

definition indexOf :: "vscode_uri list \<Rightarrow> vscode_uri \<Rightarrow> int" where
  "indexOf xs x =
     (case findIndex (\<lambda>y. uri_identity y = uri_identity x) xs of
        None \<Rightarrow> - 1
      | Some i \<Rightarrow> int i)"

text \<open>\<^verbatim>\<open>xs.splice(index, 1)\<close> for an index within the array.\<close>

definition splice1 :: "nat \<Rightarrow> 'a list \<Rightarrow> 'a list" where
  "splice1 index xs = take index xs @ drop (Suc index) xs"

subsection \<open>The rehydration closure\<close>

text \<open>
  \<^verbatim>\<open>await responseItem.loadResponseBody?.()\<close>: nothing when the property is absent;
  otherwise the closure of \<^verbatim>\<open>shrink\<close> runs. A failed read rejects before any field is
  assigned.
\<close>

definition callLoadResponseBody ::
  "'w environment \<Rightarrow> response_item \<Rightarrow> 'w world \<Rightarrow> (error + unit) \<times> response_item \<times> 'w world" where
  "callLoadResponseBody env responseItem w =
     (case loadResponseBody responseItem of
        None \<Rightarrow> (Inr (), responseItem, w)
      | Some u \<Rightarrow>
          (case readFile env u w of
             (None, w1) \<Rightarrow> (Inl ReadFileError, responseItem, w1)
           | (Some buffer, w1) \<Rightarrow>
               (Inr (),
                responseItem
                  \<lparr>response := (response responseItem)
                     \<lparr>rawBody := Some buffer, body := Some (toString_utf8 env buffer)\<rparr>,
                   isCachedResponse := False,
                   loadResponseBody := None\<rparr>,
                w1)))"

subsection \<open>The handler for an external viewer\<close>

text \<open>A template literal prints an absent value as \<^verbatim>\<open>undefined\<close>.\<close>

definition template :: "string option \<Rightarrow> string" where
  "template v = (case v of None \<Rightarrow> ''undefined'' | Some s \<Rightarrow> s)"

text \<open>
  \<^verbatim>\<open>openWithResponseHandler\<close>. An absent or empty \<^verbatim>\<open>openWith\<close> is falsy. The closure
  never assigns \<^verbatim>\<open>openWith\<close>, so the viewer handed to the command is the value tested
  first.
\<close>

definition openWithResponseHandler :: "'w environment \<Rightarrow> 'w handler" where
  "openWithResponseHandler env responseItem w =
     (case openWith responseItem of
        None \<Rightarrow> (Inr False, responseItem, w)
      | Some viewer \<Rightarrow>
          if viewer = [] then (Inr False, responseItem, w)
          else
            (case callLoadResponseBody env responseItem w of
               (Inl e, item1, w1) \<Rightarrow> (Inl e, item1, w1)
             | (Inr _, item1, w1) \<Rightarrow>
                 (case rawBody (response item1) of
                    None \<Rightarrow> (Inr False, item1, w1)
                  | Some raw \<Rightarrow>
                      (case writeFile env raw (template (name item1) @ ''.'' @ extension item1) w1 of
                         (None, w2) \<Rightarrow> (Inr False, item1, w2)
                       | (Some u, w2) \<Rightarrow>
                           (Inr True, item1\<lparr>documentUri := Some u\<rparr>,
                            executeOpenWith env u viewer w2)))))"

subsection \<open>The store\<close>

text \<open>
  The constructor: the handlers in their order, an empty history and an empty queue of
  documents, over the objects and the world as they are when the store is created.
\<close>

definition responseHandlers :: "'w environment \<Rightarrow> 'w handler list" where
  "responseHandlers env =
     [saveFileResponseHandler env,
      noResponseViewResponseHandler env,
      openWithResponseHandler env,
      previewResponseHandler env]"

definition newResponseStore :: "(item_ref \<Rightarrow> response_item) \<Rightarrow> item_ref \<Rightarrow> 'w world \<Rightarrow> 'w store" where
  "newResponseStore objects n w =
     \<lparr>heap = objects, next_ref = n, responseCache = [], prettyPrintDocuments = [], world = w\<rparr>"

text \<open>
  The two lookups; \<open>None\<close> is \<^verbatim>\<open>undefined\<close>. \<^verbatim>\<open>findResponseByDocument\<close> compares the
  strings of the uris.
\<close>

definition findResponseByDocument :: "text_document \<Rightarrow> 'w store \<Rightarrow> item_ref option" where
  "findResponseByDocument doc st =
     find (\<lambda>obj. documentUri (heap st obj) = Some (uri_string (document_uri doc))) (responseCache st)"

definition findResponseByHttpRegion :: "string \<Rightarrow> nat \<Rightarrow> 'w store \<Rightarrow> item_ref option" where
  "findResponseByHttpRegion symbolName startLine st =
     find (\<lambda>obj. name (heap st obj) = Some symbolName \<and> line (heap st obj) = Some startLine)
       (responseCache st)"

definition shrinkResponseItem :: "http_response \<Rightarrow> http_response" where
  "shrinkResponseItem resp =
     resp\<lparr>request := map_option (\<lambda>req. req\<lparr>request_body := None\<rparr>) (request resp),
          parsedBody := None,
          body := None,
          rawBody := None,
          prettyPrintBody := None\<rparr>"

text \<open>
  \<^verbatim>\<open>addToCache\<close>. \<^verbatim>\<open>config.maxHistoryItems || 50\<close> is 50 for an unset setting and for 0.
  Assigning a negative \<^verbatim>\<open>length\<close> throws a RangeError, after the insertion.
\<close>

definition capacity :: "config \<Rightarrow> int" where
  "capacity cfg = (case maxHistoryItems cfg of None \<Rightarrow> 50 | Some n \<Rightarrow> if n = 0 then 50 else n)"

definition addToCache :: "'w environment \<Rightarrow> item_ref \<Rightarrow> 'w store \<Rightarrow> (error + unit) \<times> 'w store" where
  "addToCache env r st =
     (let cfg = getConfigSetting env;
          inserted = r # responseCache st;
          newLength = min (int (length inserted)) (capacity cfg)
      in if newLength < 0 then (Inl RangeError, st\<lparr>responseCache := inserted\<rparr>)
         else
           (let cache = take (nat newLength) inserted
            in (Inr (),
                st\<lparr>responseCache := cache,
                   world := setContext (0 < length cache) (fire (world st))\<rparr>)))"

definition remove :: "'w environment \<Rightarrow> item_ref \<Rightarrow> 'w store \<Rightarrow> bool \<times> 'w store" where
  "remove env r st =
     (let responseItem = heap st r in
      case findIndex (\<lambda>obj. item_id (heap st obj) = item_id responseItem) (responseCache st) of
        None \<Rightarrow> (False, st)
      | Some index \<Rightarrow>
          (let w1 = (case responseUri responseItem of
                       None \<Rightarrow> world st
                     | Some u \<Rightarrow> deleteFile env u (world st));
               cache = splice1 index (responseCache st);
               w2 = fire w1;
               w3 = (if length cache = 0 then setContext False w2 else w2)
           in (True, st\<lparr>responseCache := cache, world := w3\<rparr>)))"

fun deleteAll :: "'w environment \<Rightarrow> response_item list \<Rightarrow> 'w world \<Rightarrow> 'w world" where
  "deleteAll env [] w = w"
| "deleteAll env (responseItem # rest) w =
     deleteAll env rest
       (case responseUri responseItem of None \<Rightarrow> w | Some u \<Rightarrow> deleteFile env u w)"

definition clear :: "'w environment \<Rightarrow> 'w store \<Rightarrow> 'w store" where
  "clear env st =
     st\<lparr>responseCache := [],
        world := setContext False (fire (deleteAll env (map (heap st) (responseCache st)) (world st)))\<rparr>"

definition shrink :: "'w environment \<Rightarrow> item_ref \<Rightarrow> 'w store \<Rightarrow> 'w store" where
  "shrink env r st =
     (let responseItem = heap st r; resp = response responseItem in
      case rawBody resp of
        None \<Rightarrow> st
      | Some raw \<Rightarrow>
          (case (case responseUri responseItem of
                   Some u \<Rightarrow> (Some u, world st)
                 | None \<Rightarrow> writeFile env raw (item_id responseItem @ ''.'' @ extension responseItem) (world st)) of
             (Some u, w1) \<Rightarrow>
               st\<lparr>heap := (heap st)
                     (r := responseItem
                        \<lparr>response := shrinkResponseItem resp,
                         responseUri := Some u,
                         isCachedResponse := True,
                         loadResponseBody := Some u\<rparr>),
                  world := w1\<rparr>
           | (None, w1) \<Rightarrow> snd (remove env r (st\<lparr>world := w1\<rparr>))))"

text \<open>The closure called on an object of the heap.\<close>

definition loadResponseBodyAt :: "'w environment \<Rightarrow> item_ref \<Rightarrow> 'w store \<Rightarrow> (error + unit) \<times> 'w store" where
  "loadResponseBodyAt env r st =
     (case callLoadResponseBody env (heap st r) (world st) of
        (res, item1, w1) \<Rightarrow> (res, st\<lparr>heap := (heap st)(r := item1), world := w1\<rparr>))"

definition prettyPrint :: "'w environment \<Rightarrow> text_editor \<Rightarrow> 'w store \<Rightarrow> 'w store" where
  "prettyPrint env editor st =
     (if map_option document (activeTextEditor env (ext (world st))) = Some (document editor) then
        (case executeFormatDocument env editor (world st) of
           (ok, w1) \<Rightarrow>
             if ok then st\<lparr>prettyPrintDocuments := prettyPrintDocuments st @ [document_uri (document editor)],
                           world := w1\<rparr>
             else st\<lparr>world := w1\<rparr>)
      else st\<lparr>prettyPrintDocuments := prettyPrintDocuments st @ [document_uri (document editor)]\<rparr>)"

text \<open>
  The loop of \<^verbatim>\<open>show\<close> over the handlers; the result tells whether the loop left by
  \<^verbatim>\<open>break\<close>, that is, whether a handler accepted the item. \<open>accepted\<close> is the body of
  \<^verbatim>\<open>if (result)\<close> before the \<^verbatim>\<open>break\<close>.
\<close>

definition accepted :: "'w environment \<Rightarrow> 'w store \<Rightarrow> 'w store" where
  "accepted env st =
     (if responseViewPrettyPrint (getConfigSetting env) then
        (case activeTextEditor env (ext (world st)) of
           None \<Rightarrow> st
         | Some editor \<Rightarrow> prettyPrint env editor st)
      else st)"

fun runHandlers :: "'w environment \<Rightarrow> 'w handler list \<Rightarrow> item_ref \<Rightarrow> 'w store \<Rightarrow> (error + bool) \<times> 'w store" where
  "runHandlers env [] r st = (Inr False, st)"
| "runHandlers env (responseHandler # rest) r st =
     (case responseHandler (heap st r) (world st) of
        (Inl e, item1, w1) \<Rightarrow> (Inl e, st\<lparr>heap := (heap st)(r := item1), world := w1\<rparr>)
      | (Inr result, item1, w1) \<Rightarrow>
          (let st1 = st\<lparr>heap := (heap st)(r := item1), world := w1\<rparr> in
           if result then (Inr True, accepted env st1)
           else runHandlers env rest r st1))"

definition "show" :: "'w environment \<Rightarrow> item_ref \<Rightarrow> 'w store \<Rightarrow> (error + unit) \<times> 'w store" where
  "show env r st =
     (case runHandlers env (responseHandlers env) r st of
        (Inl e, st1) \<Rightarrow> (Inl e, st1)
      | (Inr _, st1) \<Rightarrow> (Inr (), shrink env r st1))"

text \<open>
  \<^verbatim>\<open>add\<close>. The class \<^verbatim>\<open>view.ResponseItem\<close> is not part of the sources at hand, so the
  object that \<^verbatim>\<open>new view.ResponseItem(response, httpRegion)\<close> constructs is the argument;
  it is allocated at a fresh reference.
\<close>

definition allocate :: "response_item \<Rightarrow> 'w store \<Rightarrow> 'w store" where
  "allocate responseItem st =
     st\<lparr>heap := (heap st)(next_ref st := responseItem), next_ref := Suc (next_ref st)\<rparr>"

definition add :: "'w environment \<Rightarrow> response_item \<Rightarrow> 'w store \<Rightarrow> (error + unit) \<times> 'w store" where
  "add env responseItem st =
     (let r = next_ref st;
          st0 = allocate responseItem st
      in case show env r st0 of
           (Inl e, st1) \<Rightarrow> (Inl e, st1)
         | (Inr _, st1) \<Rightarrow> addToCache env r st1)"

text \<open>
  The subscription to \<^verbatim>\<open>onDidChangeActiveTextEditor\<close>. In
  \<^verbatim>\<open>editor?.document && indexOf(...) || -1\<close> the index 0 is falsy and becomes \<open>-1\<close>.
\<close>

definition onDidChangeActiveTextEditor :: "'w environment \<Rightarrow> text_editor option \<Rightarrow> 'w store \<Rightarrow> 'w store" where
  "onDidChangeActiveTextEditor env editor st =
     (case editor of
        None \<Rightarrow> st
      | Some e \<Rightarrow>
          (let found = indexOf (prettyPrintDocuments st) (document_uri (document e));
               indexOfDocument = (if found = 0 then - 1 else found)
           in if 0 \<le> indexOfDocument then
                (let st1 = prettyPrint env e st
                 in st1\<lparr>prettyPrintDocuments := splice1 (nat indexOfDocument) (prettyPrintDocuments st1)\<rparr>)
              else st))"

subsection \<open>A reference environment\<close>

text \<open>
  An in-memory world to run the store in: the durable files, whether the storage
  provider hands out a location, the active editor and what the formatting command
  reports.
\<close>

record memory_world =
  files :: "(uri \<times> bytes) list"
  declines :: bool
  activeEditor :: "text_editor option"
  formats :: bool

text \<open>
  Modelled from the spec: the save-silently handler of \<^verbatim>\<open>./view\<close>, which is not part of
  the sources at hand. It is applicable when the item is flagged to bypass any visible
  view; it writes the payload and reports success without opening a surface, and
  reports "not applicable" without side effects otherwise.
\<close>

definition saveFileResponseHandlerSpec ::
  "(bytes \<Rightarrow> string \<Rightarrow> 'w \<Rightarrow> uri option \<times> 'w) \<Rightarrow> 'w handler" where
  "saveFileResponseHandlerSpec write responseItem w =
     (if flagSave responseItem then
        (case rawBody (response responseItem) of
           None \<Rightarrow> (Inr True, responseItem, w)
         | Some raw \<Rightarrow>
             (let fileName = template (name responseItem) @ ''.'' @ extension responseItem
              in (Inr True, responseItem,
                  \<lparr>ext = snd (write raw fileName (ext w)),
                   calls = calls w @ [WriteFile raw fileName]\<rparr>)))
      else (Inr False, responseItem, w))"

text \<open>
  Modelled from the spec: the no-view handler of \<^verbatim>\<open>./view\<close>, which is not part of the
  sources at hand. It is applicable when the item is flagged to suppress presentation
  entirely and reports success while doing nothing visible.
\<close>

definition noResponseViewResponseHandlerSpec :: "'w handler" where
  "noResponseViewResponseHandlerSpec responseItem w = (Inr (flagNoView responseItem), responseItem, w)"

text \<open>
  Modelled from the spec: the inline preview handler of \<^verbatim>\<open>./view\<close>, which is not part of
  the sources at hand. It is the catch-all and always reports success; what it renders
  is outside the store.
\<close>

definition previewResponseHandlerSpec :: "'w handler" where
  "previewResponseHandlerSpec responseItem w = (Inr True, responseItem, w)"

definition memoryWriteFile :: "bytes \<Rightarrow> string \<Rightarrow> memory_world \<Rightarrow> uri option \<times> memory_world" where
  "memoryWriteFile content fileName x =
     (if declines x then (None, x)
      else (Some fileName, x\<lparr>files := (fileName, content) # files x\<rparr>))"

definition memoryEnvironment :: "config \<Rightarrow> memory_world environment" where
  "memoryEnvironment cfg =
     \<lparr>getConfigSetting = cfg,
      storageProvider_writeFile = memoryWriteFile,
      storageProvider_deleteFile = (\<lambda>u x. x\<lparr>files := filter (\<lambda>entry. fst entry \<noteq> u) (files x)\<rparr>),
      workspace_fs_readFile = (\<lambda>u x. map_of (files x) u),
      formatDocument = (\<lambda>editor x. (formats x, x)),
      vscode_openWith = (\<lambda>u viewer x. x),
      activeTextEditor = activeEditor,
      toString_utf8 = map (\<lambda>b. char_of (unat b)),
      saveFileResponseHandler = saveFileResponseHandlerSpec memoryWriteFile,
      noResponseViewResponseHandler = noResponseViewResponseHandlerSpec,
      previewResponseHandler = previewResponseHandlerSpec\<rparr>"

definition newItem :: "string \<Rightarrow> bytes option \<Rightarrow> response_item" where
  "newItem ident raw =
     \<lparr>item_id = ident, name = Some ''get'', line = Some 1, extension = ''json'',
      openWith = None, documentUri = None, responseUri = None, isCachedResponse = False,
      loadResponseBody = None,
      response = \<lparr>request = Some \<lparr>request_body = Some ''q''\<rparr>, parsedBody = None,
                  body = Some ''abc'', rawBody = raw, prettyPrintBody = None\<rparr>,
      flagSave = False, flagNoView = False\<rparr>"

definition memoryWorld :: "bool \<Rightarrow> text_editor option \<Rightarrow> bool \<Rightarrow> memory_world world" where
  "memoryWorld declining editor formatting =
     \<lparr>ext = \<lparr>files = [], declines = declining, activeEditor = editor, formats = formatting\<rparr>,
      calls = []\<rparr>"

definition emptyStore :: "'w world \<Rightarrow> 'w store" where
  "emptyStore w = newResponseStore (\<lambda>_. newItem [] None) 0 w"

definition plainConfig :: config where
  "plainConfig = \<lparr>maxHistoryItems = None, responseViewPrettyPrint = False\<rparr>"

definition oneConfig :: config where
  "oneConfig = \<lparr>maxHistoryItems = Some 1, responseViewPrettyPrint = False\<rparr>"

definition itemA :: response_item where
  "itemA = newItem ''a'' (Some [1, 2, 3])"

definition itemB :: response_item where
  "itemB = newItem ''b'' (Some [4])"

text \<open>The store after one item has been added and persisted.\<close>

definition persistedStore :: "memory_world store" where
  "persistedStore =
     snd (add (memoryEnvironment plainConfig) itemA (emptyStore (memoryWorld False None False)))"

text \<open>The store in which the first item has been constructed and nothing else has run.\<close>

definition freshStore :: "memory_world store" where
  "freshStore = allocate itemA (emptyStore (memoryWorld False None False))"

definition prettyConfig :: config where
  "prettyConfig = \<lparr>maxHistoryItems = None, responseViewPrettyPrint = True\<rparr>"

definition editorOne :: text_editor where
  "editorOne =
     \<lparr>document = \<lparr>document_id = 1,
                   document_uri = \<lparr>uri_identity = 1, uri_string = ''untitled:1''\<rparr>\<rparr>\<rparr>"

text \<open>An item flagged no-view that also asks for an external viewer.\<close>

definition itemNoViewOpenWith :: response_item where
  "itemNoViewOpenWith = itemA\<lparr>openWith := Some ''hexEditor'', flagNoView := True\<rparr>"

definition noViewStore :: "memory_world store" where
  "noViewStore = allocate itemNoViewOpenWith (emptyStore (memoryWorld False None False))"

text \<open>
  A store with an active editor whose formatting command reports no success, and the
  state after the item was shown there; and the state after the item was shown where
  the formatting command reports success.
\<close>

definition storeOne :: "memory_world store" where
  "storeOne = allocate itemA (emptyStore (memoryWorld False (Some editorOne) False))"

definition shownStore :: "memory_world store" where
  "shownStore = snd (show (memoryEnvironment prettyConfig) 0 storeOne)"

definition formattedStore :: "memory_world store" where
  "formattedStore =
     snd (show (memoryEnvironment prettyConfig) 0
       (allocate itemA (emptyStore (memoryWorld False (Some editorOne) True))))"

text \<open>
  The persisted item after its body was loaded back, and after it was then removed from
  the history, which deletes its file and leaves its \<^verbatim>\<open>responseUri\<close> set.
\<close>

definition reloadedStore :: "memory_world store" where
  "reloadedStore = snd (loadResponseBodyAt (memoryEnvironment plainConfig) 0 persistedStore)"

definition removedStore :: "memory_world store" where
  "removedStore =
     snd (remove (memoryEnvironment plainConfig) 0
       (snd (loadResponseBodyAt (memoryEnvironment plainConfig) 0 persistedStore)))"

definition negativeConfig :: config where
  "negativeConfig = \<lparr>maxHistoryItems = Some (- 1), responseViewPrettyPrint = False\<rparr>"

subsection \<open>Predicates of the properties\<close>

text \<open>
  \<^verbatim>\<open>shrink\<close> reaches its branch \<^verbatim>\<open>if (responseUri)\<close>: the item holds a raw body and either
  has a location already or is given one by the storage provider.
\<close>

definition persists :: "'w environment \<Rightarrow> item_ref \<Rightarrow> 'w store \<Rightarrow> bool" where
  "persists env r st =
     (case rawBody (response (heap st r)) of
        None \<Rightarrow> False
      | Some raw \<Rightarrow>
          (case responseUri (heap st r) of
             Some u \<Rightarrow> True
           | None \<Rightarrow>
               fst (writeFile env raw (item_id (heap st r) @ ''.'' @ extension (heap st r)) (world st)) \<noteq> None))"

text \<open>The storage provider round-trips bytes: what was written at a location is read there.\<close>

definition roundTrips :: "'w environment \<Rightarrow> bool" where
  "roundTrips env =
     (\<forall>content fileName x u x'.
        storageProvider_writeFile env content fileName x = (Some u, x') \<longrightarrow>
        workspace_fs_readFile env u x' = Some content)"

text \<open>Sequences of the two operations that change the payload of an item.\<close>

datatype operation = Shrink item_ref | LoadResponseBody item_ref

fun perform :: "'w environment \<Rightarrow> operation \<Rightarrow> 'w store \<Rightarrow> 'w store" where
  "perform env (Shrink r) st = shrink env r st"
| "perform env (LoadResponseBody r) st = snd (loadResponseBodyAt env r st)"

text \<open>
  The two states of an item between operations, of which it is in exactly one: while
  \<^verbatim>\<open>isCachedResponse\<close> is set the raw body is gone and the item has a \<^verbatim>\<open>responseUri\<close> and
  the closure that reads it; otherwise the raw body is resident and there is no closure.
\<close>

definition consistent :: "response_item \<Rightarrow> bool" where
  "consistent responseItem =
     (if isCachedResponse responseItem then
        rawBody (response responseItem) = None \<and>
        responseUri responseItem \<noteq> None \<and>
        loadResponseBody responseItem = responseUri responseItem
      else
        rawBody (response responseItem) \<noteq> None \<and>
        loadResponseBody responseItem = None)"

text \<open>
  \<^verbatim>\<open>shrink\<close> reaches its failure branch, the one that calls \<^verbatim>\<open>remove\<close>: the item holds a
  raw body, has no location, and the storage provider gives none.
\<close>

definition declined :: "'w environment \<Rightarrow> item_ref \<Rightarrow> 'w store \<Rightarrow> bool" where
  "declined env r st =
     (case rawBody (response (heap st r)) of
        None \<Rightarrow> False
      | Some raw \<Rightarrow>
          (case responseUri (heap st r) of
             Some u \<Rightarrow> False
           | None \<Rightarrow>
               fst (writeFile env raw (item_id (heap st r) @ ''.'' @ extension (heap st r)) (world st)) = None))"

text \<open>
  Every reference of the history is to an object that was allocated: \<^verbatim>\<open>add\<close> then
  allocates an object that the history does not hold yet.
\<close>

definition wellFormed :: "'w store \<Rightarrow> bool" where
  "wellFormed st = (\<forall>obj \<in> set (responseCache st). obj < next_ref st)"

section \<open>Properties\<close>

subsection \<open>Arrays\<close>

lemma findIndex_None: "findIndex p xs = None \<longleftrightarrow> (\<forall>x \<in> set xs. \<not> p x)"
  by (induction xs) (auto split: option.splits)

lemma findIndex_Some: "findIndex p xs = Some i \<Longrightarrow> i < length xs \<and> p (xs ! i)"
  by (induction xs arbitrary: i) (auto split: option.splits if_splits)

lemma length_splice1: "index < length xs \<Longrightarrow> Suc (length (splice1 index xs)) = length xs"
  by (simp add: splice1_def)

subsection \<open>Removal\<close>

lemma remove_heap: "heap (snd (remove env r st)) = heap st"
  by (simp add: remove_def Let_def split: option.splits)

text \<open>
  C8. \<^verbatim>\<open>remove\<close> on an item whose id no entry of the history carries returns false and
  changes nothing. On an id that is present it returns true, takes exactly one entry
  (one that carries the id) out of the history, and, when the item has a
  \<^verbatim>\<open>responseUri\<close>, first asks the storage provider to delete that file; an item without
  \<^verbatim>\<open>responseUri\<close> causes no call to the storage provider.
\<close>

theorem remove_by_id:
  "((\<forall>obj \<in> set (responseCache st). item_id (heap st obj) \<noteq> item_id (heap st r)) \<longrightarrow>
      remove env r st = (False, st)) \<and>
   ((\<exists>obj \<in> set (responseCache st). item_id (heap st obj) = item_id (heap st r)) \<longrightarrow>
      fst (remove env r st) \<and>
      Suc (length (responseCache (snd (remove env r st)))) = length (responseCache st) \<and>
      (\<exists>index < length (responseCache st).
         item_id (heap st (responseCache st ! index)) = item_id (heap st r) \<and>
         responseCache (snd (remove env r st)) =
           take index (responseCache st) @ drop (Suc index) (responseCache st)) \<and>
      heap (snd (remove env r st)) = heap st \<and>
      (case responseUri (heap st r) of
         None \<Rightarrow>
           ext (world (snd (remove env r st))) = ext (world st) \<and>
           calls (world (snd (remove env r st))) =
             calls (world st) @ HistoryChanged #
               (if responseCache (snd (remove env r st)) = [] then [SetContext False] else [])
       | Some u \<Rightarrow>
           ext (world (snd (remove env r st))) = storageProvider_deleteFile env u (ext (world st)) \<and>
           calls (world (snd (remove env r st))) =
             calls (world st) @ DeleteFile u # HistoryChanged #
               (if responseCache (snd (remove env r st)) = [] then [SetContext False] else [])))"
proof (cases "findIndex (\<lambda>obj. item_id (heap st obj) = item_id (heap st r)) (responseCache st)")
  case None
  then have "\<forall>obj \<in> set (responseCache st). item_id (heap st obj) \<noteq> item_id (heap st r)"
    by (simp add: findIndex_None)
  with None show ?thesis
    by (auto simp: remove_def)
next
  case (Some index)
  then have idx: "index < length (responseCache st)"
    and hit: "item_id (heap st (responseCache st ! index)) = item_id (heap st r)"
    using findIndex_Some [OF Some] by simp_all
  then have present: "\<exists>obj \<in> set (responseCache st). item_id (heap st obj) = item_id (heap st r)"
    using nth_mem by blast
  have result: "remove env r st =
      (True,
       st\<lparr>responseCache := splice1 index (responseCache st),
          world :=
            (if length (splice1 index (responseCache st)) = 0
             then setContext False
                    (fire (case responseUri (heap st r) of
                             None \<Rightarrow> world st
                           | Some u \<Rightarrow> deleteFile env u (world st)))
             else fire (case responseUri (heap st r) of
                          None \<Rightarrow> world st
                        | Some u \<Rightarrow> deleteFile env u (world st)))\<rparr>)"
    using Some by (simp add: remove_def Let_def)
  have cache: "responseCache (snd (remove env r st)) = splice1 index (responseCache st)"
    and objects: "heap (snd (remove env r st)) = heap st"
    and returned: "fst (remove env r st)"
    by (simp_all add: result)
  have len: "Suc (length (responseCache (snd (remove env r st)))) = length (responseCache st)"
    unfolding cache using idx by (rule length_splice1)
  have removed: "\<exists>index < length (responseCache st).
         item_id (heap st (responseCache st ! index)) = item_id (heap st r) \<and>
         responseCache (snd (remove env r st)) =
           take index (responseCache st) @ drop (Suc index) (responseCache st)"
    unfolding cache using idx hit by (auto simp: splice1_def)
  have outside: "case responseUri (heap st r) of
         None \<Rightarrow>
           ext (world (snd (remove env r st))) = ext (world st) \<and>
           calls (world (snd (remove env r st))) =
             calls (world st) @ HistoryChanged #
               (if responseCache (snd (remove env r st)) = [] then [SetContext False] else [])
       | Some u \<Rightarrow>
           ext (world (snd (remove env r st))) = storageProvider_deleteFile env u (ext (world st)) \<and>
           calls (world (snd (remove env r st))) =
             calls (world st) @ DeleteFile u # HistoryChanged #
               (if responseCache (snd (remove env r st)) = [] then [SetContext False] else [])"
    unfolding cache
    by (simp add: result fire_def setContext_def deleteFile_def split: option.splits)
  from present returned len removed objects outside show ?thesis
    by blast
qed

theorem remove_by_id_witness:
  "responseCache (emptyStore (memoryWorld False None False)) = [] \<and>
   remove (memoryEnvironment plainConfig) 0 (emptyStore (memoryWorld False None False))
     = (False, emptyStore (memoryWorld False None False)) \<and>
   (\<exists>obj \<in> set (responseCache persistedStore).
      item_id (heap persistedStore obj) = item_id (heap persistedStore 0)) \<and>
   fst (remove (memoryEnvironment plainConfig) 0 persistedStore) \<and>
   length (responseCache persistedStore) = 1 \<and>
   responseCache (snd (remove (memoryEnvironment plainConfig) 0 persistedStore)) = [] \<and>
   responseUri (heap persistedStore 0) = Some ''a.json'' \<and>
   files (ext (world persistedStore)) = [(''a.json'', [1, 2, 3])] \<and>
   files (ext (world (snd (remove (memoryEnvironment plainConfig) 0 persistedStore)))) = []"
proof -
  let ?E = "memoryEnvironment plainConfig"
  let ?S0 = "emptyStore (memoryWorld False None False)"
  have absent: "\<forall>obj \<in> set (responseCache ?S0). item_id (heap ?S0 obj) \<noteq> item_id (heap ?S0 0)"
    by (simp add: emptyStore_def newResponseStore_def)
  have present: "\<exists>obj \<in> set (responseCache persistedStore).
      item_id (heap persistedStore obj) = item_id (heap persistedStore 0)"
    by code_simp
  from remove_by_id [of ?S0 0 ?E] absent
  have first: "remove ?E 0 ?S0 = (False, ?S0)"
    by blast
  from remove_by_id [of persistedStore 0 ?E] present
  have second: "fst (remove ?E 0 persistedStore)"
    by blast
  have "length (responseCache persistedStore) = 1"
    "responseCache (snd (remove ?E 0 persistedStore)) = []"
    "responseUri (heap persistedStore 0) = Some ''a.json''"
    "files (ext (world persistedStore)) = [(''a.json'', [1, 2, 3])]"
    "files (ext (world (snd (remove ?E 0 persistedStore)))) = []"
    by code_simp+
  moreover have "responseCache ?S0 = []"
    by (simp add: emptyStore_def newResponseStore_def)
  ultimately show ?thesis
    using present first second by blast
qed

subsection \<open>Shrinking\<close>

lemma shrink_no_rawBody: "rawBody (response (heap st r)) = None \<Longrightarrow> shrink env r st = st"
  by (simp add: shrink_def)

lemma shrink_persists_item:
  assumes "persists env r st"
  shows "\<exists>u w1. shrink env r st =
           st\<lparr>heap := (heap st)
                 (r := (heap st r)
                    \<lparr>response := shrinkResponseItem (response (heap st r)),
                     responseUri := Some u,
                     isCachedResponse := True,
                     loadResponseBody := Some u\<rparr>),
              world := w1\<rparr> \<and>
           (case responseUri (heap st r) of
              Some u' \<Rightarrow> u' = u \<and> w1 = world st
            | None \<Rightarrow> writeFile env (the (rawBody (response (heap st r))))
                        (item_id (heap st r) @ ''.'' @ extension (heap st r)) (world st) = (Some u, w1))"
  using assms
  by (auto simp: persists_def shrink_def Let_def split: option.splits prod.splits)

text \<open>
  C6. Once \<^verbatim>\<open>shrink\<close> has persisted an item (the item held a raw body and a location was
  there or was obtained), a second \<^verbatim>\<open>shrink\<close> of the item, under any environment,
  returns the state as it is: the objects, the history and the trace of calls are the
  same, so nothing is written a second time and no field changes. \<^verbatim>\<open>shrink\<close> has no
  throwing branch.
\<close>

theorem shrink_twice:
  assumes "persists env r st"
  shows "shrink env' r (shrink env r st) = shrink env r st"
proof -
  from shrink_persists_item [OF assms] obtain u w1 where
    "shrink env r st =
       st\<lparr>heap := (heap st)
             (r := (heap st r)
                \<lparr>response := shrinkResponseItem (response (heap st r)),
                 responseUri := Some u,
                 isCachedResponse := True,
                 loadResponseBody := Some u\<rparr>),
          world := w1\<rparr>"
    by blast
  then have "rawBody (response (heap (shrink env r st) r)) = None"
    by (simp add: shrinkResponseItem_def)
  then show ?thesis
    by (rule shrink_no_rawBody)
qed

theorem shrink_twice_witness:
  "persists (memoryEnvironment plainConfig) 0 freshStore \<and>
   shrink (memoryEnvironment plainConfig) 0 (shrink (memoryEnvironment plainConfig) 0 freshStore) =
     shrink (memoryEnvironment plainConfig) 0 freshStore \<and>
   calls (world (shrink (memoryEnvironment plainConfig) 0 freshStore)) = [WriteFile [1, 2, 3] ''a.json'']"
proof -
  have p: "persists (memoryEnvironment plainConfig) 0 freshStore"
    by code_simp
  have "calls (world (shrink (memoryEnvironment plainConfig) 0 freshStore)) = [WriteFile [1, 2, 3] ''a.json'']"
    by code_simp
  with p shrink_twice [OF p, of "memoryEnvironment plainConfig"] show ?thesis
    by simp
qed

subsection \<open>Rehydration\<close>

lemma roundTrips_memoryEnvironment: "roundTrips (memoryEnvironment cfg)"
  by (auto simp: roundTrips_def memoryEnvironment_def memoryWriteFile_def split: if_splits)

text \<open>
  An item that was loaded back and then removed keeps its \<^verbatim>\<open>responseUri\<close>, while
  \<^verbatim>\<open>remove\<close> has deleted the file. \<^verbatim>\<open>shrink\<close> takes its success branch without writing,
  and \<^verbatim>\<open>loadResponseBody\<close> rejects although the storage provider round-trips bytes: the
  raw body is not restored.
\<close>

theorem load_after_shrink_counterexample:
  "roundTrips (memoryEnvironment plainConfig) \<and>
   rawBody (response (heap removedStore 0)) = Some [1, 2, 3] \<and>
   responseUri (heap removedStore 0) = Some ''a.json'' \<and>
   files (ext (world removedStore)) = [] \<and>
   persists (memoryEnvironment plainConfig) 0 removedStore \<and>
   calls (world (shrink (memoryEnvironment plainConfig) 0 removedStore)) = calls (world removedStore) \<and>
   isCachedResponse (heap (shrink (memoryEnvironment plainConfig) 0 removedStore) 0) \<and>
   fst (loadResponseBodyAt (memoryEnvironment plainConfig) 0
          (shrink (memoryEnvironment plainConfig) 0 removedStore)) = Inl ReadFileError \<and>
   rawBody (response (heap (snd (loadResponseBodyAt (memoryEnvironment plainConfig) 0
          (shrink (memoryEnvironment plainConfig) 0 removedStore))) 0)) = None"
proof -
  have "rawBody (response (heap removedStore 0)) = Some [1, 2, 3]"
    "responseUri (heap removedStore 0) = Some ''a.json''"
    "files (ext (world removedStore)) = []"
    "persists (memoryEnvironment plainConfig) 0 removedStore"
    "calls (world (shrink (memoryEnvironment plainConfig) 0 removedStore)) = calls (world removedStore)"
    "isCachedResponse (heap (shrink (memoryEnvironment plainConfig) 0 removedStore) 0)"
    "fst (loadResponseBodyAt (memoryEnvironment plainConfig) 0
          (shrink (memoryEnvironment plainConfig) 0 removedStore)) = Inl ReadFileError"
    "rawBody (response (heap (snd (loadResponseBodyAt (memoryEnvironment plainConfig) 0
          (shrink (memoryEnvironment plainConfig) 0 removedStore))) 0)) = None"
    by code_simp+
  with roundTrips_memoryEnvironment [of plainConfig] show ?thesis
    by blast
qed

text \<open>
  C7, amended. Let the storage provider round-trip bytes and let \<^verbatim>\<open>shrink\<close> persist an
  item whose raw body is \<open>raw\<close>. When the item had no \<^verbatim>\<open>responseUri\<close>, so that \<^verbatim>\<open>shrink\<close>
  wrote the raw body, \<^verbatim>\<open>loadResponseBody\<close> returns without error, the raw body is \<open>raw\<close>
  again, \<^verbatim>\<open>isCachedResponse\<close> is false and the \<^verbatim>\<open>loadResponseBody\<close> property is gone. When
  the item had a \<^verbatim>\<open>responseUri\<close> already, \<^verbatim>\<open>shrink\<close> writes nothing and leaves the world as
  it is, and \<^verbatim>\<open>loadResponseBody\<close> restores the bytes that this location holds, clearing
  \<^verbatim>\<open>isCachedResponse\<close> and removing itself, or, when the location holds nothing, rejects
  and leaves the item cached, without raw body and with the \<^verbatim>\<open>loadResponseBody\<close> property.
\<close>

theorem load_after_shrink:
  assumes faithful: "roundTrips env"
    and raw: "rawBody (response (heap st r)) = Some raw"
    and ok: "persists env r st"
  shows "(responseUri (heap st r) = None \<longrightarrow>
            fst (loadResponseBodyAt env r (shrink env r st)) = Inr () \<and>
            rawBody (response (heap (snd (loadResponseBodyAt env r (shrink env r st))) r)) = Some raw \<and>
            \<not> isCachedResponse (heap (snd (loadResponseBodyAt env r (shrink env r st))) r) \<and>
            loadResponseBody (heap (snd (loadResponseBodyAt env r (shrink env r st))) r) = None) \<and>
         (\<forall>u. responseUri (heap st r) = Some u \<longrightarrow>
            world (shrink env r st) = world st \<and>
            (case workspace_fs_readFile env u (ext (world st)) of
               Some content \<Rightarrow>
                 fst (loadResponseBodyAt env r (shrink env r st)) = Inr () \<and>
                 rawBody (response (heap (snd (loadResponseBodyAt env r (shrink env r st))) r)) =
                   Some content \<and>
                 \<not> isCachedResponse (heap (snd (loadResponseBodyAt env r (shrink env r st))) r) \<and>
                 loadResponseBody (heap (snd (loadResponseBodyAt env r (shrink env r st))) r) = None
             | None \<Rightarrow>
                 fst (loadResponseBodyAt env r (shrink env r st)) = Inl ReadFileError \<and>
                 rawBody (response (heap (snd (loadResponseBodyAt env r (shrink env r st))) r)) = None \<and>
                 isCachedResponse (heap (snd (loadResponseBodyAt env r (shrink env r st))) r) \<and>
                 loadResponseBody (heap (snd (loadResponseBodyAt env r (shrink env r st))) r) = Some u))"
proof -
  from shrink_persists_item [OF ok] obtain u w1 where
    st1: "shrink env r st =
       st\<lparr>heap := (heap st)
             (r := (heap st r)
                \<lparr>response := shrinkResponseItem (response (heap st r)),
                 responseUri := Some u,
                 isCachedResponse := True,
                 loadResponseBody := Some u\<rparr>),
          world := w1\<rparr>"
    and loc: "case responseUri (heap st r) of
              Some u' \<Rightarrow> u' = u \<and> w1 = world st
            | None \<Rightarrow> writeFile env (the (rawBody (response (heap st r))))
                        (item_id (heap st r) @ ''.'' @ extension (heap st r)) (world st) = (Some u, w1)"
    by blast
  have gone: "rawBody (shrinkResponseItem (response (heap st r))) = None"
    by (simp add: shrinkResponseItem_def)
  have written: "responseUri (heap st r) = None \<longrightarrow>
      fst (loadResponseBodyAt env r (shrink env r st)) = Inr () \<and>
      rawBody (response (heap (snd (loadResponseBodyAt env r (shrink env r st))) r)) = Some raw \<and>
      \<not> isCachedResponse (heap (snd (loadResponseBodyAt env r (shrink env r st))) r) \<and>
      loadResponseBody (heap (snd (loadResponseBodyAt env r (shrink env r st))) r) = None"
  proof
    assume none: "responseUri (heap st r) = None"
    with loc raw have "writeFile env raw (item_id (heap st r) @ ''.'' @ extension (heap st r)) (world st) = (Some u, w1)"
      by simp
    then have "storageProvider_writeFile env raw (item_id (heap st r) @ ''.'' @ extension (heap st r)) (ext (world st)) = (Some u, ext w1)"
      by (auto simp: writeFile_def split: prod.splits)
    with faithful have "workspace_fs_readFile env u (ext w1) = Some raw"
      unfolding roundTrips_def by blast
    then show "fst (loadResponseBodyAt env r (shrink env r st)) = Inr () \<and>
      rawBody (response (heap (snd (loadResponseBodyAt env r (shrink env r st))) r)) = Some raw \<and>
      \<not> isCachedResponse (heap (snd (loadResponseBodyAt env r (shrink env r st))) r) \<and>
      loadResponseBody (heap (snd (loadResponseBodyAt env r (shrink env r st))) r) = None"
      by (simp add: st1 loadResponseBodyAt_def callLoadResponseBody_def readFile_def)
  qed
  have located: "\<forall>u'. responseUri (heap st r) = Some u' \<longrightarrow>
      world (shrink env r st) = world st \<and>
      (case workspace_fs_readFile env u' (ext (world st)) of
         Some content \<Rightarrow>
           fst (loadResponseBodyAt env r (shrink env r st)) = Inr () \<and>
           rawBody (response (heap (snd (loadResponseBodyAt env r (shrink env r st))) r)) = Some content \<and>
           \<not> isCachedResponse (heap (snd (loadResponseBodyAt env r (shrink env r st))) r) \<and>
           loadResponseBody (heap (snd (loadResponseBodyAt env r (shrink env r st))) r) = None
       | None \<Rightarrow>
           fst (loadResponseBodyAt env r (shrink env r st)) = Inl ReadFileError \<and>
           rawBody (response (heap (snd (loadResponseBodyAt env r (shrink env r st))) r)) = None \<and>
           isCachedResponse (heap (snd (loadResponseBodyAt env r (shrink env r st))) r) \<and>
           loadResponseBody (heap (snd (loadResponseBodyAt env r (shrink env r st))) r) = Some u')"
  proof (intro allI impI)
    fix u'
    assume some: "responseUri (heap st r) = Some u'"
    with loc have same: "u' = u" "w1 = world st"
      by simp_all
    show "world (shrink env r st) = world st \<and>
      (case workspace_fs_readFile env u' (ext (world st)) of
         Some content \<Rightarrow>
           fst (loadResponseBodyAt env r (shrink env r st)) = Inr () \<and>
           rawBody (response (heap (snd (loadResponseBodyAt env r (shrink env r st))) r)) = Some content \<and>
           \<not> isCachedResponse (heap (snd (loadResponseBodyAt env r (shrink env r st))) r) \<and>
           loadResponseBody (heap (snd (loadResponseBodyAt env r (shrink env r st))) r) = None
       | None \<Rightarrow>
           fst (loadResponseBodyAt env r (shrink env r st)) = Inl ReadFileError \<and>
           rawBody (response (heap (snd (loadResponseBodyAt env r (shrink env r st))) r)) = None \<and>
           isCachedResponse (heap (snd (loadResponseBodyAt env r (shrink env r st))) r) \<and>
           loadResponseBody (heap (snd (loadResponseBodyAt env r (shrink env r st))) r) = Some u')"
      using same gone
      by (simp add: st1 loadResponseBodyAt_def callLoadResponseBody_def readFile_def
          split: option.splits)
  qed
  from written located show ?thesis
    by blast
qed

theorem load_after_shrink_witness:
  "roundTrips (memoryEnvironment plainConfig) \<and>
   rawBody (response (heap freshStore 0)) = Some [1, 2, 3] \<and>
   persists (memoryEnvironment plainConfig) 0 freshStore \<and>
   responseUri (heap freshStore 0) = None \<and>
   rawBody (response (heap (shrink (memoryEnvironment plainConfig) 0 freshStore) 0)) = None \<and>
   fst (loadResponseBodyAt (memoryEnvironment plainConfig) 0
          (shrink (memoryEnvironment plainConfig) 0 freshStore)) = Inr () \<and>
   rawBody (response (heap (snd (loadResponseBodyAt (memoryEnvironment plainConfig) 0
          (shrink (memoryEnvironment plainConfig) 0 freshStore))) 0)) = Some [1, 2, 3] \<and>
   \<not> isCachedResponse (heap (snd (loadResponseBodyAt (memoryEnvironment plainConfig) 0
          (shrink (memoryEnvironment plainConfig) 0 freshStore))) 0) \<and>
   loadResponseBody (heap (snd (loadResponseBodyAt (memoryEnvironment plainConfig) 0
          (shrink (memoryEnvironment plainConfig) 0 freshStore))) 0) = None \<and>
   rawBody (response (heap reloadedStore 0)) = Some [1, 2, 3] \<and>
   persists (memoryEnvironment plainConfig) 0 reloadedStore \<and>
   responseUri (heap reloadedStore 0) = Some ''a.json'' \<and>
   workspace_fs_readFile (memoryEnvironment plainConfig) ''a.json'' (ext (world reloadedStore)) =
     Some [1, 2, 3] \<and>
   world (shrink (memoryEnvironment plainConfig) 0 reloadedStore) = world reloadedStore \<and>
   rawBody (response (heap (snd (loadResponseBodyAt (memoryEnvironment plainConfig) 0
          (shrink (memoryEnvironment plainConfig) 0 reloadedStore))) 0)) = Some [1, 2, 3]"
proof -
  let ?E = "memoryEnvironment plainConfig"
  have raw: "rawBody (response (heap freshStore 0)) = Some [1, 2, 3]"
    and p: "persists ?E 0 freshStore"
    and loc: "responseUri (heap freshStore 0) = None"
    and gone: "rawBody (response (heap (shrink ?E 0 freshStore) 0)) = None"
    by code_simp+
  have raw': "rawBody (response (heap reloadedStore 0)) = Some [1, 2, 3]"
    and p': "persists ?E 0 reloadedStore"
    and loc': "responseUri (heap reloadedStore 0) = Some ''a.json''"
    and copy: "workspace_fs_readFile ?E ''a.json'' (ext (world reloadedStore)) = Some [1, 2, 3]"
    by code_simp+
  note first = load_after_shrink [OF roundTrips_memoryEnvironment raw p]
  note second = load_after_shrink [OF roundTrips_memoryEnvironment raw' p']
  from first loc have a:
    "fst (loadResponseBodyAt ?E 0 (shrink ?E 0 freshStore)) = Inr ()"
    "rawBody (response (heap (snd (loadResponseBodyAt ?E 0 (shrink ?E 0 freshStore))) 0)) = Some [1, 2, 3]"
    "\<not> isCachedResponse (heap (snd (loadResponseBodyAt ?E 0 (shrink ?E 0 freshStore))) 0)"
    "loadResponseBody (heap (snd (loadResponseBodyAt ?E 0 (shrink ?E 0 freshStore))) 0) = None"
    by blast+
  from second loc' copy have b:
    "world (shrink ?E 0 reloadedStore) = world reloadedStore"
    "rawBody (response (heap (snd (loadResponseBodyAt ?E 0 (shrink ?E 0 reloadedStore))) 0)) = Some [1, 2, 3]"
    by simp_all
  from roundTrips_memoryEnvironment [of plainConfig] raw p loc gone a raw' p' loc' copy b
  show ?thesis
    by blast
qed

subsection \<open>Insertion\<close>

lemma capacity_falsy:
  "maxHistoryItems cfg = None \<or> maxHistoryItems cfg = Some 0 \<Longrightarrow> capacity cfg = 50"
  by (auto simp: capacity_def)

lemma capacity_nonzero: "capacity cfg \<noteq> 0"
  by (simp add: capacity_def split: option.splits)

lemma addToCache_returns:
  assumes "addToCache env r st = (Inr (), st')"
  shows "responseCache st' = take (nat (capacity (getConfigSetting env))) (r # responseCache st)"
    and "0 < capacity (getConfigSetting env)"
    and "heap st' = heap st"
proof -
  let ?n = "min (int (length (r # responseCache st))) (capacity (getConfigSetting env))"
  from assms have nonneg: "\<not> ?n < 0"
    by (auto simp: addToCache_def Let_def split: if_splits)
  then show pos: "0 < capacity (getConfigSetting env)"
    using capacity_nonzero [of "getConfigSetting env"] by auto
  from assms nonneg have "responseCache st' = take (nat ?n) (r # responseCache st)"
    by (auto simp: addToCache_def Let_def split: if_splits)
  also have "\<dots> = take (nat (capacity (getConfigSetting env))) (r # responseCache st)"
    by (simp add: min_def)
  finally show "responseCache st' = take (nat (capacity (getConfigSetting env))) (r # responseCache st)" .
  from assms nonneg show "heap st' = heap st"
    by (auto simp: addToCache_def Let_def split: if_splits)
qed

lemma add_returns:
  assumes "add env responseItem st = (Inr (), st')"
  shows "fst (show env (next_ref st) (allocate responseItem st)) = Inr () \<and>
         addToCache env (next_ref st) (snd (show env (next_ref st) (allocate responseItem st))) = (Inr (), st')"
  using assms
  by (auto simp: add_def Let_def split: prod.splits sum.splits)

text \<open>
  The history can be longer than a configured \<^verbatim>\<open>maxHistoryItems\<close> of 0: the setting is
  falsy, the capacity is 50, and one \<^verbatim>\<open>add\<close> to an empty store leaves one entry.
\<close>

theorem add_bounded_counterexample:
  "maxHistoryItems (getConfigSetting
      (memoryEnvironment \<lparr>maxHistoryItems = Some 0, responseViewPrettyPrint = False\<rparr>)) = Some 0 \<and>
   fst (add (memoryEnvironment \<lparr>maxHistoryItems = Some 0, responseViewPrettyPrint = False\<rparr>) itemA
          (emptyStore (memoryWorld False None False))) = Inr () \<and>
   \<not> int (length (responseCache (snd
          (add (memoryEnvironment \<lparr>maxHistoryItems = Some 0, responseViewPrettyPrint = False\<rparr>) itemA
             (emptyStore (memoryWorld False None False)))))) \<le> 0"
  by code_simp

text \<open>
  C4, amended. After every \<^verbatim>\<open>add\<close> that returns, from any state, the history is no
  longer than the capacity \<^verbatim>\<open>maxHistoryItems || 50\<close> (the setting when it is a number
  other than 0, and 50 when it is unset or 0); and when the persistence of the item did
  not fail (\<^verbatim>\<open>shrink\<close> did not reach its failure branch), the object just added is at
  index 0.
\<close>

theorem add_bounded:
  assumes "add env responseItem st = (Inr (), st')"
  shows "int (length (responseCache st')) \<le> capacity (getConfigSetting env) \<and>
         (\<not> declined env (next_ref st)
              (snd (runHandlers env (responseHandlers env) (next_ref st) (allocate responseItem st))) \<longrightarrow>
            responseCache st' \<noteq> [] \<and> responseCache st' ! 0 = next_ref st)"
proof -
  let ?st1 = "snd (show env (next_ref st) (allocate responseItem st))"
  from add_returns [OF assms] have a: "addToCache env (next_ref st) ?st1 = (Inr (), st')"
    by simp
  note c = addToCache_returns(1) [OF a] and p = addToCache_returns(2) [OF a]
  from p obtain k where k: "nat (capacity (getConfigSetting env)) = Suc k"
    by (cases "nat (capacity (getConfigSetting env))") auto
  from c p have "int (length (responseCache st')) \<le> capacity (getConfigSetting env)"
    by simp
  moreover from c k have "responseCache st' \<noteq> []" "responseCache st' ! 0 = next_ref st"
    by simp_all
  ultimately show ?thesis by simp
qed

theorem add_bounded_witness:
  "fst (add (memoryEnvironment oneConfig) itemB persistedStore) = Inr () \<and>
   capacity (getConfigSetting (memoryEnvironment oneConfig)) = 1 \<and>
   next_ref persistedStore = 1 \<and>
   \<not> declined (memoryEnvironment oneConfig) (next_ref persistedStore)
       (snd (runHandlers (memoryEnvironment oneConfig) (responseHandlers (memoryEnvironment oneConfig))
          (next_ref persistedStore) (allocate itemB persistedStore))) \<and>
   int (length (responseCache (snd (add (memoryEnvironment oneConfig) itemB persistedStore)))) \<le> 1 \<and>
   responseCache (snd (add (memoryEnvironment oneConfig) itemB persistedStore)) ! 0 = 1"
proof -
  let ?E = "memoryEnvironment oneConfig"
  have ret: "fst (add ?E itemB persistedStore) = Inr ()"
    and cap: "capacity (getConfigSetting ?E) = 1"
    and nxt: "next_ref persistedStore = 1"
    and written: "\<not> declined ?E (next_ref persistedStore)
       (snd (runHandlers ?E (responseHandlers ?E) (next_ref persistedStore) (allocate itemB persistedStore)))"
    by code_simp+
  from ret have "add ?E itemB persistedStore = (Inr (), snd (add ?E itemB persistedStore))"
    by (metis prod.collapse)
  from add_bounded [OF this] ret cap nxt written show ?thesis
    by simp
qed

text \<open>A negative setting makes \<^verbatim>\<open>add\<close> throw, after the insertion.\<close>

lemma negative_maxHistoryItems_throws:
  "fst (add (memoryEnvironment negativeConfig) itemA (emptyStore (memoryWorld False None False))) =
     Inl RangeError \<and>
   responseCache (snd (add (memoryEnvironment negativeConfig) itemA
     (emptyStore (memoryWorld False None False)))) = [0]"
  by code_simp

text \<open>
  C10. With \<^verbatim>\<open>maxHistoryItems\<close> unset or 0, an \<^verbatim>\<open>add\<close> whose handlers do not throw returns,
  the history is trimmed to its first 50 entries, and the object just added is among them.
\<close>

theorem add_falsy_maxHistoryItems:
  assumes falsy: "maxHistoryItems (getConfigSetting env) = None \<or>
                  maxHistoryItems (getConfigSetting env) = Some 0"
    and shown: "fst (show env (next_ref st) (allocate responseItem st)) = Inr ()"
  shows "fst (add env responseItem st) = Inr () \<and>
         responseCache (snd (add env responseItem st)) =
           take 50 (next_ref st # responseCache (snd (show env (next_ref st) (allocate responseItem st)))) \<and>
         next_ref st \<in> set (responseCache (snd (add env responseItem st)))"
proof -
  let ?st1 = "snd (show env (next_ref st) (allocate responseItem st))"
  from shown have add: "add env responseItem st = addToCache env (next_ref st) ?st1"
    by (auto simp: add_def Let_def split: prod.splits sum.splits)
  have cap: "capacity (getConfigSetting env) = 50"
    using falsy by (rule capacity_falsy)
  have "addToCache env (next_ref st) ?st1 =
          (Inr (), ?st1\<lparr>responseCache := take 50 (next_ref st # responseCache ?st1),
                       world := setContext (0 < length (take 50 (next_ref st # responseCache ?st1)))
                                  (fire (world ?st1))\<rparr>)"
    by (simp add: addToCache_def Let_def cap min_def)
  with add show ?thesis by simp
qed

theorem add_falsy_maxHistoryItems_witness:
  "maxHistoryItems (getConfigSetting
      (memoryEnvironment \<lparr>maxHistoryItems = Some 0, responseViewPrettyPrint = False\<rparr>)) = Some 0 \<and>
   fst (show (memoryEnvironment \<lparr>maxHistoryItems = Some 0, responseViewPrettyPrint = False\<rparr>)
          (next_ref persistedStore) (allocate itemB persistedStore)) = Inr () \<and>
   fst (add (memoryEnvironment \<lparr>maxHistoryItems = Some 0, responseViewPrettyPrint = False\<rparr>) itemB
          persistedStore) = Inr () \<and>
   next_ref persistedStore \<in> set (responseCache (snd
      (add (memoryEnvironment \<lparr>maxHistoryItems = Some 0, responseViewPrettyPrint = False\<rparr>) itemB
         persistedStore))) \<and>
   responseCache (snd
      (add (memoryEnvironment \<lparr>maxHistoryItems = Some 0, responseViewPrettyPrint = False\<rparr>) itemB
         persistedStore)) = [1, 0]"
proof -
  let ?E = "memoryEnvironment \<lparr>maxHistoryItems = Some 0, responseViewPrettyPrint = False\<rparr>"
  have zero: "maxHistoryItems (getConfigSetting ?E) = Some 0"
    and shown: "fst (show ?E (next_ref persistedStore) (allocate itemB persistedStore)) = Inr ()"
    and cache: "responseCache (snd (add ?E itemB persistedStore)) = [1, 0]"
    by code_simp+
  from zero have "maxHistoryItems (getConfigSetting ?E) = None \<or>
                  maxHistoryItems (getConfigSetting ?E) = Some 0"
    by simp
  from add_falsy_maxHistoryItems [OF this shown] zero shown cache show ?thesis
    by blast
qed

text \<open>
  Whatever the handlers do: when the loop of \<^verbatim>\<open>show\<close> leaves an item with a raw body and
  no \<^verbatim>\<open>responseUri\<close>, and the storage provider declines the write, \<^verbatim>\<open>add\<close> returns with
  the item at the head of the history and its raw body in place.
\<close>

lemma addToCache_succeeds:
  "0 < capacity (getConfigSetting env) \<Longrightarrow> fst (addToCache env r st) = Inr ()"
  by (simp add: addToCache_def Let_def)

lemma shrink_declined:
  assumes "rawBody (response (heap st r)) = Some raw"
    and "responseUri (heap st r) = None"
    and "fst (writeFile env raw (item_id (heap st r) @ ''.'' @ extension (heap st r)) (world st)) = None"
  shows "heap (shrink env r st) = heap st"
  using assms
  by (auto simp: shrink_def Let_def remove_heap split: prod.splits option.splits)

lemma add_after_declined_write:
  assumes loop: "runHandlers env (responseHandlers env) (next_ref st) (allocate responseItem st) = (Inr b, st1)"
    and raw: "rawBody (response (heap st1 (next_ref st))) = Some raw"
    and nowhere: "responseUri (heap st1 (next_ref st)) = None"
    and declined: "fst (writeFile env raw
        (item_id (heap st1 (next_ref st)) @ ''.'' @ extension (heap st1 (next_ref st))) (world st1)) = None"
    and room: "0 < capacity (getConfigSetting env)"
  shows "fst (add env responseItem st) = Inr () \<and>
         responseCache (snd (add env responseItem st)) ! 0 = next_ref st \<and>
         rawBody (response (heap (snd (add env responseItem st)) (next_ref st))) = Some raw \<and>
         responseUri (heap (snd (add env responseItem st)) (next_ref st)) = None"
proof -
  let ?r = "next_ref st"
  let ?st2 = "shrink env ?r st1"
  from loop have "show env ?r (allocate responseItem st) = (Inr (), ?st2)"
    by (simp add: show_def)
  then have added: "add env responseItem st = addToCache env ?r ?st2"
    by (simp add: add_def Let_def)
  from addToCache_succeeds [OF room, of ?r ?st2]
  have inserted: "addToCache env ?r ?st2 = (Inr (), snd (addToCache env ?r ?st2))"
    by (metis prod.collapse)
  obtain k where k: "nat (capacity (getConfigSetting env)) = Suc k"
    using room by (cases "nat (capacity (getConfigSetting env))") auto
  have cache: "responseCache (snd (addToCache env ?r ?st2)) ! 0 = ?r"
    using addToCache_returns(1) [OF inserted] k by simp
  have "heap (snd (addToCache env ?r ?st2)) = heap ?st2"
    using inserted by (rule addToCache_returns(3))
  also have "\<dots> = heap st1"
    using raw nowhere declined by (rule shrink_declined)
  finally have objects: "heap (snd (addToCache env ?r ?st2)) = heap st1" .
  have returned: "fst (addToCache env ?r ?st2) = Inr ()"
    using room by (rule addToCache_succeeds)
  show ?thesis
    using raw nowhere returned cache by (simp add: added objects)
qed

text \<open>
  \<^verbatim>\<open>addToCache\<close> never reaches the storage provider: it leaves the world outside the
  store as it is and, when it returns, makes the two notifications only.
\<close>

lemma addToCache_world:
  "ext (world (snd (addToCache env r st))) = ext (world st) \<and>
   calls (world (snd (addToCache env r st))) =
     calls (world st) @
       (case fst (addToCache env r st) of
          Inl e \<Rightarrow> []
        | Inr u \<Rightarrow> [HistoryChanged, SetContext (responseCache (snd (addToCache env r st)) \<noteq> [])])"
  by (simp add: addToCache_def Let_def fire_def setContext_def)

text \<open>
  C1. The storage provider declines the write in \<^verbatim>\<open>shrink\<close>. The \<^verbatim>\<open>remove\<close> of the failure
  branch runs before \<^verbatim>\<open>addToCache\<close> and finds no entry; \<^verbatim>\<open>addToCache\<close> then inserts the
  item, which keeps its raw body and has no \<^verbatim>\<open>responseUri\<close>.
\<close>

theorem add_keeps_unpersisted_item:
  "fst (writeFile (memoryEnvironment plainConfig) [1, 2, 3] ''a.json'' (memoryWorld True None False)) = None \<and>
   fst (add (memoryEnvironment plainConfig) itemA (emptyStore (memoryWorld True None False))) = Inr () \<and>
   responseCache (snd (add (memoryEnvironment plainConfig) itemA
      (emptyStore (memoryWorld True None False)))) = [0] \<and>
   item_id (heap (snd (add (memoryEnvironment plainConfig) itemA
      (emptyStore (memoryWorld True None False)))) 0) = ''a'' \<and>
   rawBody (response (heap (snd (add (memoryEnvironment plainConfig) itemA
      (emptyStore (memoryWorld True None False)))) 0)) = Some [1, 2, 3] \<and>
   responseUri (heap (snd (add (memoryEnvironment plainConfig) itemA
      (emptyStore (memoryWorld True None False)))) 0) = None \<and>
   calls (world (snd (add (memoryEnvironment plainConfig) itemA
      (emptyStore (memoryWorld True None False))))) =
     [WriteFile [1, 2, 3] ''a.json'', HistoryChanged, SetContext True]"
  by code_simp

text \<open>
  C2. With \<^verbatim>\<open>maxHistoryItems = 1\<close>, a second \<^verbatim>\<open>add\<close> evicts the first item from the
  history; its file is still in the durable storage, and the storage provider was never
  asked to delete anything.
\<close>

theorem eviction_keeps_durable_copy:
  "maxHistoryItems (getConfigSetting (memoryEnvironment oneConfig)) = Some 1 \<and>
   fst (add (memoryEnvironment oneConfig) itemA (emptyStore (memoryWorld False None False))) = Inr () \<and>
   responseCache (snd (add (memoryEnvironment oneConfig) itemA
      (emptyStore (memoryWorld False None False)))) = [0] \<and>
   responseUri (heap (snd (add (memoryEnvironment oneConfig) itemA
      (emptyStore (memoryWorld False None False)))) 0) = Some ''a.json'' \<and>
   fst (add (memoryEnvironment oneConfig) itemB
          (snd (add (memoryEnvironment oneConfig) itemA
             (emptyStore (memoryWorld False None False))))) = Inr () \<and>
   responseCache (snd (add (memoryEnvironment oneConfig) itemB
          (snd (add (memoryEnvironment oneConfig) itemA
             (emptyStore (memoryWorld False None False)))))) = [1] \<and>
   files (ext (world (snd (add (memoryEnvironment oneConfig) itemB
          (snd (add (memoryEnvironment oneConfig) itemA
             (emptyStore (memoryWorld False None False)))))))) =
     [(''b.json'', [4]), (''a.json'', [1, 2, 3])] \<and>
   calls (world (snd (add (memoryEnvironment oneConfig) itemB
          (snd (add (memoryEnvironment oneConfig) itemA
             (emptyStore (memoryWorld False None False))))))) =
     [WriteFile [1, 2, 3] ''a.json'', HistoryChanged, SetContext True,
      WriteFile [4] ''b.json'', HistoryChanged, SetContext True]"
  by code_simp

subsection \<open>Shrunk or resident\<close>

lemma shrink_other: "r' \<noteq> r \<Longrightarrow> heap (shrink env r' st) r = heap st r"
  by (simp add: shrink_def Let_def remove_heap split: option.splits prod.splits)

lemma shrink_consistent:
  assumes "consistent (heap st r)"
  shows "consistent (heap (shrink env r st) r)"
proof (cases "persists env r st")
  case True
  from shrink_persists_item [OF True] show ?thesis
    by (auto simp: consistent_def shrinkResponseItem_def)
next
  case False
  then have "heap (shrink env r st) = heap st"
    by (auto simp: persists_def shrink_def Let_def remove_heap split: option.splits prod.splits)
  with assms show ?thesis by simp
qed

lemma load_other: "r' \<noteq> r \<Longrightarrow> heap (snd (loadResponseBodyAt env r' st)) r = heap st r"
  by (simp add: loadResponseBodyAt_def split: prod.splits)

lemma load_consistent:
  assumes "consistent (heap st r)"
  shows "consistent (heap (snd (loadResponseBodyAt env r st)) r)"
  using assms
  by (auto simp: loadResponseBodyAt_def callLoadResponseBody_def readFile_def consistent_def
      split: option.splits prod.splits if_splits)

lemma perform_consistent:
  assumes "consistent (heap st r)"
  shows "consistent (heap (perform env operation st) r)"
proof (cases operation)
  case (Shrink r')
  with assms show ?thesis
    by (cases "r' = r") (simp_all add: shrink_consistent shrink_other)
next
  case (LoadResponseBody r')
  with assms show ?thesis
    by (cases "r' = r") (simp_all add: load_consistent load_other)
qed

lemma fold_consistent:
  "consistent (heap st r) \<Longrightarrow> consistent (heap (fold (perform env) operations st) r)"
proof (induction operations arbitrary: st)
  case Nil
  then show ?case by simp
next
  case (Cons operation operations)
  from Cons.prems have "consistent (heap (perform env operation st) r)"
    by (rule perform_consistent)
  then show ?case
    using Cons.IH by simp
qed

lemma shrink_responseUri:
  assumes "responseUri (heap st r) = Some u"
  shows "responseUri (heap (shrink env r st) r) = Some u"
proof (cases "rawBody (response (heap st r))")
  case None
  with assms show ?thesis by (simp add: shrink_def)
next
  case (Some raw)
  with assms show ?thesis by (simp add: shrink_def Let_def)
qed

lemma load_responseUri:
  "responseUri (heap (snd (loadResponseBodyAt env r st)) r) = responseUri (heap st r)"
  by (simp add: loadResponseBodyAt_def callLoadResponseBody_def readFile_def
      split: option.splits prod.splits)

lemma perform_responseUri:
  assumes "responseUri (heap st r) = Some u"
  shows "responseUri (heap (perform env operation st) r) = Some u"
proof (cases operation)
  case (Shrink r')
  with assms show ?thesis
    by (cases "r' = r") (simp_all add: shrink_responseUri shrink_other)
next
  case (LoadResponseBody r')
  with assms show ?thesis
    by (cases "r' = r") (simp_all add: load_responseUri load_other)
qed

lemma fold_responseUri:
  "responseUri (heap st r) = Some u \<Longrightarrow>
   responseUri (heap (fold (perform env) operations st) r) = Some u"
proof (induction operations arbitrary: st)
  case Nil
  then show ?case by simp
next
  case (Cons operation operations)
  from Cons.prems have "responseUri (heap (perform env operation st) r) = Some u"
    by (rule perform_responseUri)
  then show ?case
    using Cons.IH by simp
qed

lemma load_completed:
  assumes "consistent (heap st r)"
    and "isCachedResponse (heap st r)"
    and "fst (loadResponseBodyAt env r st) = Inr ()"
  shows "rawBody (response (heap (snd (loadResponseBodyAt env r st)) r)) \<noteq> None \<and>
         responseUri (heap (snd (loadResponseBodyAt env r st)) r) \<noteq> None \<and>
         \<not> isCachedResponse (heap (snd (loadResponseBodyAt env r st)) r)"
proof -
  from assms(1) assms(2) obtain u where u: "loadResponseBody (heap st r) = Some u"
    "responseUri (heap st r) = Some u"
    by (auto simp: consistent_def)
  with assms(3) show ?thesis
    by (auto simp: loadResponseBodyAt_def callLoadResponseBody_def readFile_def
        split: option.splits prod.splits)
qed

text \<open>
  After \<^verbatim>\<open>shrink\<close> and a completed \<^verbatim>\<open>loadResponseBody\<close> the item holds its
  \<^verbatim>\<open>responseUri\<close> and the resident raw body at once, with no load in progress.
\<close>

theorem shrunk_or_resident_counterexample:
  "responseUri (heap (fold (perform (memoryEnvironment plainConfig))
       [Shrink 0, LoadResponseBody 0] freshStore) 0) = Some ''a.json'' \<and>
   rawBody (response (heap (fold (perform (memoryEnvironment plainConfig))
       [Shrink 0, LoadResponseBody 0] freshStore) 0)) = Some [1, 2, 3] \<and>
   loadResponseBody (heap (fold (perform (memoryEnvironment plainConfig))
       [Shrink 0, LoadResponseBody 0] freshStore) 0) = None"
  by code_simp

text \<open>
  C3, amended. Take an item that is in one of the two states, as an item with a raw body
  is that was never shrunk. In every state reached through \<^verbatim>\<open>shrink\<close> and
  \<^verbatim>\<open>loadResponseBody\<close> (on any items) it is in one of the two states again, so exactly
  one of the resident raw body and the closure is there: while \<^verbatim>\<open>isCachedResponse\<close> is
  true the item has no resident raw body and has a \<^verbatim>\<open>responseUri\<close> with the closure that
  reads it; while it is false the item has a resident raw body and no closure. A
  \<^verbatim>\<open>responseUri\<close>, once set, is never cleared or changed, and a load that completes on a
  cached item leaves the item with the resident raw body next to its \<^verbatim>\<open>responseUri\<close>.
\<close>

theorem shrunk_or_resident:
  assumes "consistent (heap st r)"
  shows "consistent (heap (fold (perform env) operations st) r) \<and>
         (rawBody (response (heap (fold (perform env) operations st) r)) \<noteq> None) \<noteq>
           (loadResponseBody (heap (fold (perform env) operations st) r) \<noteq> None) \<and>
         (\<forall>u. responseUri (heap st r) = Some u \<longrightarrow>
            responseUri (heap (fold (perform env) operations st) r) = Some u) \<and>
         (isCachedResponse (heap (fold (perform env) operations st) r) \<and>
          fst (loadResponseBodyAt env r (fold (perform env) operations st)) = Inr () \<longrightarrow>
            rawBody (response (heap (snd (loadResponseBodyAt env r
              (fold (perform env) operations st))) r)) \<noteq> None \<and>
            responseUri (heap (snd (loadResponseBodyAt env r
              (fold (perform env) operations st))) r) \<noteq> None \<and>
            \<not> isCachedResponse (heap (snd (loadResponseBodyAt env r
              (fold (perform env) operations st))) r))"
proof -
  let ?st' = "fold (perform env) operations st"
  have inv: "consistent (heap ?st' r)"
    using assms by (rule fold_consistent)
  then have one: "(rawBody (response (heap ?st' r)) \<noteq> None) \<noteq> (loadResponseBody (heap ?st' r) \<noteq> None)"
    by (auto simp: consistent_def split: if_splits)
  have kept: "\<forall>u. responseUri (heap st r) = Some u \<longrightarrow> responseUri (heap ?st' r) = Some u"
    by (simp add: fold_responseUri)
  have loaded: "isCachedResponse (heap ?st' r) \<and> fst (loadResponseBodyAt env r ?st') = Inr () \<longrightarrow>
      rawBody (response (heap (snd (loadResponseBodyAt env r ?st')) r)) \<noteq> None \<and>
      responseUri (heap (snd (loadResponseBodyAt env r ?st')) r) \<noteq> None \<and>
      \<not> isCachedResponse (heap (snd (loadResponseBodyAt env r ?st')) r)"
    using load_completed [OF inv] by blast
  from inv one kept loaded show ?thesis
    by blast
qed

theorem shrunk_or_resident_witness:
  "consistent (heap freshStore 0) \<and>
   consistent (heap (fold (perform (memoryEnvironment plainConfig))
       [Shrink 0, LoadResponseBody 0, Shrink 0] freshStore) 0) \<and>
   isCachedResponse (heap (fold (perform (memoryEnvironment plainConfig))
       [Shrink 0, LoadResponseBody 0, Shrink 0] freshStore) 0) \<and>
   fst (loadResponseBodyAt (memoryEnvironment plainConfig) 0
       (fold (perform (memoryEnvironment plainConfig))
          [Shrink 0, LoadResponseBody 0, Shrink 0] freshStore)) = Inr () \<and>
   rawBody (response (heap (snd (loadResponseBodyAt (memoryEnvironment plainConfig) 0
       (fold (perform (memoryEnvironment plainConfig))
          [Shrink 0, LoadResponseBody 0, Shrink 0] freshStore))) 0)) \<noteq> None \<and>
   responseUri (heap (snd (loadResponseBodyAt (memoryEnvironment plainConfig) 0
       (fold (perform (memoryEnvironment plainConfig))
          [Shrink 0, LoadResponseBody 0, Shrink 0] freshStore))) 0) \<noteq> None \<and>
   responseUri (heap (shrink (memoryEnvironment plainConfig) 0 freshStore) 0) = Some ''a.json'' \<and>
   responseUri (heap (fold (perform (memoryEnvironment plainConfig))
       [LoadResponseBody 0, Shrink 0] (shrink (memoryEnvironment plainConfig) 0 freshStore)) 0) =
     Some ''a.json'' \<and>
   calls (world (fold (perform (memoryEnvironment plainConfig))
       [Shrink 0, LoadResponseBody 0, Shrink 0] freshStore)) =
     [WriteFile [1, 2, 3] ''a.json'', ReadFile ''a.json'']"
proof -
  let ?E = "memoryEnvironment plainConfig"
  let ?S = "fold (perform ?E) [Shrink 0, LoadResponseBody 0, Shrink 0] freshStore"
  let ?S1 = "shrink ?E 0 freshStore"
  have init: "consistent (heap freshStore 0)"
    by code_simp
  have init1: "consistent (heap ?S1 0)"
    by code_simp
  have cached: "isCachedResponse (heap ?S 0)"
    and loads: "fst (loadResponseBodyAt ?E 0 ?S) = Inr ()"
    and located: "responseUri (heap ?S1 0) = Some ''a.json''"
    and trace: "calls (world ?S) = [WriteFile [1, 2, 3] ''a.json'', ReadFile ''a.json'']"
    by code_simp+
  note a = shrunk_or_resident [OF init, of ?E "[Shrink 0, LoadResponseBody 0, Shrink 0]"]
  note b = shrunk_or_resident [OF init1, of ?E "[LoadResponseBody 0, Shrink 0]"]
  from a have inv: "consistent (heap ?S 0)"
    by blast
  from a cached loads have after:
    "rawBody (response (heap (snd (loadResponseBodyAt ?E 0 ?S)) 0)) \<noteq> None"
    "responseUri (heap (snd (loadResponseBodyAt ?E 0 ?S)) 0) \<noteq> None"
    by blast+
  from b located have kept:
    "responseUri (heap (fold (perform ?E) [LoadResponseBody 0, Shrink 0] ?S1) 0) = Some ''a.json''"
    by blast
  from init inv cached loads after located kept trace show ?thesis
    by blast
qed

subsection \<open>The handler chain\<close>

lemma runHandlers_append:
  "runHandlers env pre r st = (Inr False, st1) \<Longrightarrow>
   runHandlers env (pre @ rest) r st = runHandlers env rest r st1"
proof (induction pre arbitrary: st)
  case Nil
  then show ?case by simp
next
  case (Cons h pre)
  then show ?case
    by (auto simp: Let_def split: prod.splits sum.splits if_splits)
qed

lemma runHandlers_nth:
  assumes "k < length hs"
    and "runHandlers env (take k hs) r st = (Inr False, st1)"
    and "(hs ! k) (heap st1 r) (world st1) = (Inr True, item2, w2)"
  shows "runHandlers env hs r st =
           (Inr True, accepted env (st1\<lparr>heap := (heap st1)(r := item2), world := w2\<rparr>))"
proof -
  have "runHandlers env (take k hs @ hs ! k # drop (Suc k) hs) r st =
          (Inr True, accepted env (st1\<lparr>heap := (heap st1)(r := item2), world := w2\<rparr>))"
    using assms(2) assms(3) by (simp add: runHandlers_append)
  moreover have "take k hs @ hs ! k # drop (Suc k) hs = hs"
    using assms(1) by (rule id_take_nth_drop [symmetric])
  ultimately show ?thesis by simp
qed

lemma noViewStore_item: "heap noViewStore 0 = itemNoViewOpenWith"
  by (simp add: noViewStore_def allocate_def emptyStore_def newResponseStore_def)

text \<open>
  C5. The handlers are save-silently, no-view, external viewer, inline preview, in this
  order. When the handlers before position \<open>k\<close> all decline and the handler at \<open>k\<close>
  accepts, the loop ends with that handler: with any handlers \<open>later\<close> behind it the
  result is the same and is built from the accepting handler's result alone, and
  \<^verbatim>\<open>show\<close> goes on to \<^verbatim>\<open>shrink\<close>. For an item flagged no-view that also has
  \<^verbatim>\<open>openWith\<close> this is \<open>k = 1\<close>: the external-viewer handler does not run.
\<close>

theorem show_first_accepting_handler:
  assumes "k < length (responseHandlers env)"
    and "runHandlers env (take k (responseHandlers env)) r st = (Inr False, st1)"
    and "(responseHandlers env ! k) (heap st1 r) (world st1) = (Inr True, item2, w2)"
  shows "responseHandlers env =
           [saveFileResponseHandler env, noResponseViewResponseHandler env,
            openWithResponseHandler env, previewResponseHandler env] \<and>
         runHandlers env (take k (responseHandlers env) @ responseHandlers env ! k # later) r st =
           (Inr True, accepted env (st1\<lparr>heap := (heap st1)(r := item2), world := w2\<rparr>)) \<and>
         show env r st =
           (Inr (), shrink env r (accepted env (st1\<lparr>heap := (heap st1)(r := item2), world := w2\<rparr>)))"
proof -
  let ?st2 = "st1\<lparr>heap := (heap st1)(r := item2), world := w2\<rparr>"
  have "runHandlers env (take k (responseHandlers env) @ responseHandlers env ! k # later) r st =
      (Inr True, accepted env ?st2)"
    using assms(2) assms(3) by (simp add: runHandlers_append)
  moreover have "runHandlers env (responseHandlers env) r st = (Inr True, accepted env ?st2)"
    using assms by (rule runHandlers_nth)
  then have "show env r st = (Inr (), shrink env r (accepted env ?st2))"
    by (simp add: show_def)
  moreover have "responseHandlers env =
           [saveFileResponseHandler env, noResponseViewResponseHandler env,
            openWithResponseHandler env, previewResponseHandler env]"
    by (simp add: responseHandlers_def)
  ultimately show ?thesis
    by blast
qed

theorem show_first_accepting_handler_witness:
  "flagNoView (heap noViewStore 0) \<and>
   openWith (heap noViewStore 0) = Some ''hexEditor'' \<and>
   Suc 0 < length (responseHandlers (memoryEnvironment plainConfig)) \<and>
   runHandlers (memoryEnvironment plainConfig)
     (take (Suc 0) (responseHandlers (memoryEnvironment plainConfig))) 0 noViewStore =
     (Inr False, noViewStore) \<and>
   (responseHandlers (memoryEnvironment plainConfig) ! Suc 0) (heap noViewStore 0) (world noViewStore) =
     (Inr True, heap noViewStore 0, world noViewStore) \<and>
   show (memoryEnvironment plainConfig) 0 noViewStore =
     (Inr (), shrink (memoryEnvironment plainConfig) 0
        (accepted (memoryEnvironment plainConfig) noViewStore)) \<and>
   calls (world (snd (show (memoryEnvironment plainConfig) 0 noViewStore))) =
     [WriteFile [1, 2, 3] ''a.json''] \<and>
   documentUri (heap (snd (show (memoryEnvironment plainConfig) 0 noViewStore)) 0) = None"
proof -
  let ?E = "memoryEnvironment plainConfig"
  have flags: "flagNoView (heap noViewStore 0)" "openWith (heap noViewStore 0) = Some ''hexEditor''"
    by (simp_all add: noViewStore_item itemNoViewOpenWith_def)
  have len: "Suc 0 < length (responseHandlers ?E)"
    by (simp add: responseHandlers_def)
  have "saveFileResponseHandler ?E (heap noViewStore 0) (world noViewStore) =
      (Inr False, heap noViewStore 0, world noViewStore)"
    by (simp add: memoryEnvironment_def saveFileResponseHandlerSpec_def noViewStore_item
        itemNoViewOpenWith_def itemA_def newItem_def)
  then have declined: "runHandlers ?E (take (Suc 0) (responseHandlers ?E)) 0 noViewStore =
      (Inr False, noViewStore)"
    by (simp add: responseHandlers_def)
  have accepts: "(responseHandlers ?E ! Suc 0) (heap noViewStore 0) (world noViewStore) =
      (Inr True, heap noViewStore 0, world noViewStore)"
    using flags(1)
    by (simp add: responseHandlers_def memoryEnvironment_def noResponseViewResponseHandlerSpec_def)
  have trace: "calls (world (snd (show ?E 0 noViewStore))) = [WriteFile [1, 2, 3] ''a.json'']"
    "documentUri (heap (snd (show ?E 0 noViewStore)) 0) = None"
    by code_simp+
  from show_first_accepting_handler [OF len declined accepts]
  have "show ?E 0 noViewStore = (Inr (), shrink ?E 0 (accepted ?E noViewStore))"
    by simp
  with flags len declined accepts trace show ?thesis
    by blast
qed

subsection \<open>The queue of documents to format\<close>

text \<open>
  On the active editor \<^verbatim>\<open>prettyPrint\<close> runs the formatting command once and queues the
  document when the command reports success, and only then.
\<close>

lemma prettyPrint_active:
  assumes "map_option document (activeTextEditor env (ext (world st))) = Some (document editor)"
  shows "prettyPrintDocuments (prettyPrint env editor st) =
           prettyPrintDocuments st @
             (if fst (formatDocument env editor (ext (world st)))
              then [document_uri (document editor)] else [])"
    and "calls (world (prettyPrint env editor st)) = calls (world st) @ [FormatDocument editor]"
proof -
  obtain ok x where f: "formatDocument env editor (ext (world st)) = (ok, x)"
    by (cases "formatDocument env editor (ext (world st))")
  have p: "prettyPrint env editor st =
      (if ok
       then st\<lparr>prettyPrintDocuments := prettyPrintDocuments st @ [document_uri (document editor)],
               world := \<lparr>ext = x, calls = calls (world st) @ [FormatDocument editor]\<rparr>\<rparr>
       else st\<lparr>world := \<lparr>ext = x, calls = calls (world st) @ [FormatDocument editor]\<rparr>\<rparr>)"
    using assms by (simp add: prettyPrint_def executeFormatDocument_def f)
  show "prettyPrintDocuments (prettyPrint env editor st) =
           prettyPrintDocuments st @
             (if fst (formatDocument env editor (ext (world st)))
              then [document_uri (document editor)] else [])"
    by (simp add: p f)
  show "calls (world (prettyPrint env editor st)) = calls (world st) @ [FormatDocument editor]"
    by (simp add: p)
qed

text \<open>
  A document queued at the first position is never taken up again: its index 0 is
  falsy in \<^verbatim>\<open>indexOf(...) || -1\<close>.
\<close>

lemma first_queue_entry_stays:
  "indexOf (prettyPrintDocuments q) (document_uri (document e)) = 0 \<Longrightarrow>
   onDidChangeActiveTextEditor env (Some e) q = q"
  by (simp add: onDidChangeActiveTextEditor_def)

text \<open>
  C9. The item is shown with \<^verbatim>\<open>responseViewPrettyPrint\<close> set and an editor active, and
  the formatting command reports no success: the command ran once, the queue stays
  empty, and when that editor becomes active again nothing is formatted. Where the
  formatting command reports success, the document is queued, at index 0, and when the
  editor becomes active again nothing is formatted either and the entry stays.
\<close>

theorem failed_formatting_not_retried:
  "responseViewPrettyPrint (getConfigSetting (memoryEnvironment prettyConfig)) \<and>
   activeTextEditor (memoryEnvironment prettyConfig) (ext (world storeOne)) = Some editorOne \<and>
   \<not> fst (formatDocument (memoryEnvironment prettyConfig) editorOne (ext (world storeOne))) \<and>
   fst (show (memoryEnvironment prettyConfig) 0 storeOne) = Inr () \<and>
   calls (world shownStore) = [FormatDocument editorOne, WriteFile [1, 2, 3] ''a.json''] \<and>
   prettyPrintDocuments shownStore = [] \<and>
   calls (world (onDidChangeActiveTextEditor (memoryEnvironment prettyConfig) (Some editorOne) shownStore)) =
     [FormatDocument editorOne, WriteFile [1, 2, 3] ''a.json''] \<and>
   prettyPrintDocuments
     (onDidChangeActiveTextEditor (memoryEnvironment prettyConfig) (Some editorOne) shownStore) = [] \<and>
   prettyPrintDocuments formattedStore = [document_uri (document editorOne)] \<and>
   calls (world formattedStore) = [FormatDocument editorOne, WriteFile [1, 2, 3] ''a.json''] \<and>
   calls (world (onDidChangeActiveTextEditor (memoryEnvironment prettyConfig) (Some editorOne) formattedStore)) =
     [FormatDocument editorOne, WriteFile [1, 2, 3] ''a.json''] \<and>
   prettyPrintDocuments
     (onDidChangeActiveTextEditor (memoryEnvironment prettyConfig) (Some editorOne) formattedStore) =
     [document_uri (document editorOne)]"
  by code_simp

subsection \<open>References\<close>

lemma set_splice1: "set (splice1 index xs) \<subseteq> set xs"
  by (auto simp: splice1_def dest: in_set_takeD in_set_dropD)

lemma remove_cache: "set (responseCache (snd (remove env r st))) \<subseteq> set (responseCache st)"
proof (cases "findIndex (\<lambda>obj. item_id (heap st obj) = item_id (heap st r)) (responseCache st)")
  case None
  then show ?thesis by (simp add: remove_def)
next
  case (Some index)
  then have "responseCache (snd (remove env r st)) = splice1 index (responseCache st)"
    by (simp add: remove_def Let_def)
  then show ?thesis
    by (simp add: set_splice1)
qed

lemma remove_next_ref: "next_ref (snd (remove env r st)) = next_ref st"
  by (simp add: remove_def Let_def split: option.splits)

lemma shrink_cache: "set (responseCache (shrink env r st)) \<subseteq> set (responseCache st)"
proof (cases "persists env r st")
  case True
  from shrink_persists_item [OF True] show ?thesis by auto
next
  case False
  show ?thesis
  proof (cases "rawBody (response (heap st r))")
    case None
    then show ?thesis by (simp add: shrink_def)
  next
    case (Some raw)
    with False have "shrink env r st =
        snd (remove env r (st\<lparr>world := snd (writeFile env raw
          (item_id (heap st r) @ ''.'' @ extension (heap st r)) (world st))\<rparr>))"
      by (auto simp: persists_def shrink_def Let_def split: option.splits prod.splits)
    then show ?thesis
      using remove_cache [of env r "st\<lparr>world := snd (writeFile env raw
          (item_id (heap st r) @ ''.'' @ extension (heap st r)) (world st))\<rparr>"]
      by simp
  qed
qed

lemma shrink_next_ref: "next_ref (shrink env r st) = next_ref st"
  by (simp add: shrink_def Let_def remove_next_ref split: option.splits prod.splits)

lemma prettyPrint_cache:
  "responseCache (prettyPrint env editor st) = responseCache st \<and>
   next_ref (prettyPrint env editor st) = next_ref st"
  by (simp add: prettyPrint_def split: prod.splits)

lemma accepted_cache:
  "responseCache (accepted env st) = responseCache st \<and> next_ref (accepted env st) = next_ref st"
  by (simp add: accepted_def prettyPrint_cache split: option.splits)

lemma runHandlers_cache:
  "responseCache (snd (runHandlers env hs r st)) = responseCache st \<and>
   next_ref (snd (runHandlers env hs r st)) = next_ref st"
proof (induction hs arbitrary: st)
  case Nil
  then show ?case by simp
next
  case (Cons h hs)
  show ?case
  proof (cases "h (heap st r) (world st)")
    case (fields res item1 w1)
    show ?thesis
    proof (cases res)
      case (Inl e)
      with fields show ?thesis by simp
    next
      case (Inr result)
      with fields Cons.IH [of "st\<lparr>heap := (heap st)(r := item1), world := w1\<rparr>"]
      show ?thesis
        by (simp add: Let_def accepted_cache)
    qed
  qed
qed

lemma show_cache:
  "set (responseCache (snd (show env r st))) \<subseteq> set (responseCache st) \<and>
   next_ref (snd (show env r st)) = next_ref st"
proof (cases "runHandlers env (responseHandlers env) r st")
  case (Pair res st1)
  with runHandlers_cache [of env "responseHandlers env" r st]
  have same: "responseCache st1 = responseCache st" "next_ref st1 = next_ref st"
    by simp_all
  show ?thesis
  proof (cases res)
    case (Inl e)
    with Pair same show ?thesis by (simp add: show_def)
  next
    case (Inr b)
    with Pair same shrink_cache [of env r st1] show ?thesis
      by (simp add: show_def shrink_next_ref)
  qed
qed

lemma add_wellFormed:
  assumes "wellFormed st"
  shows "wellFormed (snd (add env responseItem st))"
proof -
  let ?r = "next_ref st"
  let ?st0 = "allocate responseItem st"
  have alloc: "responseCache ?st0 = responseCache st" "next_ref ?st0 = Suc ?r"
    by (simp_all add: allocate_def)
  from show_cache [of env ?r ?st0] alloc
  have shown: "set (responseCache (snd (show env ?r ?st0))) \<subseteq> set (responseCache st)"
    "next_ref (snd (show env ?r ?st0)) = Suc ?r"
    by simp_all
  with assms have below: "\<forall>obj \<in> set (?r # responseCache (snd (show env ?r ?st0))). obj < Suc ?r"
    by (auto simp: wellFormed_def less_Suc_eq)
  show ?thesis
  proof (cases "show env ?r ?st0")
    case (Pair res st1)
    with shown below have st1: "next_ref st1 = Suc ?r" "\<forall>obj \<in> set (?r # responseCache st1). obj < Suc ?r"
      by simp_all
    show ?thesis
    proof (cases res)
      case (Inl e)
      with Pair st1 show ?thesis
        by (simp add: add_def Let_def wellFormed_def)
    next
      case (Inr u)
      with Pair have "add env responseItem st = addToCache env ?r st1"
        by (simp add: add_def Let_def)
      moreover have "wellFormed (snd (addToCache env ?r st1))"
      proof (cases "min (int (length (?r # responseCache st1))) (capacity (getConfigSetting env)) < 0")
        case True
        then have "snd (addToCache env ?r st1) = st1\<lparr>responseCache := ?r # responseCache st1\<rparr>"
          by (simp add: addToCache_def Let_def)
        with st1 show ?thesis
          by (simp add: wellFormed_def)
      next
        case False
        then have "responseCache (snd (addToCache env ?r st1)) =
            take (nat (min (int (length (?r # responseCache st1))) (capacity (getConfigSetting env))))
              (?r # responseCache st1)"
          and "next_ref (snd (addToCache env ?r st1)) = next_ref st1"
          by (simp_all add: addToCache_def Let_def)
        with st1 show ?thesis
          unfolding wellFormed_def by (metis in_set_takeD)
      qed
      ultimately show ?thesis by simp
    qed
  qed
qed

lemma newResponseStore_wellFormed: "wellFormed (newResponseStore objects n w)"
  by (simp add: wellFormed_def newResponseStore_def)

subsection \<open>Clearing\<close>

text \<open>
  \<^verbatim>\<open>clear\<close> asks the storage provider to delete the file of every entry that has a
  \<^verbatim>\<open>responseUri\<close>, empties the history and notifies once.
\<close>

lemma clear_history:
  "responseCache (clear env st) = [] \<and>
   ext (world (clear env st)) = ext (deleteAll env (map (heap st) (responseCache st)) (world st)) \<and>
   calls (world (clear env st)) =
     calls (deleteAll env (map (heap st) (responseCache st)) (world st)) @ [HistoryChanged, SetContext False]"
  by (simp add: clear_def fire_def setContext_def)

end
